theory Spec2Isabelle
  imports Complex_Main "HOL-Library.Sublist"
begin

section \<open>Python values\<close>

subsection \<open>Text\<close>

text \<open>
  A Python \<open>str\<close> is modelled as a \<open>string\<close> holding the UTF-8 bytes of the text:
  an ASCII character is one \<open>char\<close>, any other code point is the two to four bytes of
  its encoding.  Substring tests on code points and on UTF-8 bytes agree, because no
  encoding of a code point occurs inside the encoding of another one.
\<close>

text \<open>\<open>t in s\<close> for two strings: \<open>t\<close> occurs in \<open>s\<close> as a contiguous block.\<close>

fun py_in :: "string \<Rightarrow> string \<Rightarrow> bool" where
  "py_in t [] = (t = [])"
| "py_in t (c # cs) = (prefix t (c # cs) \<or> py_in t cs)"

text \<open>
  \<open>str.upper()\<close> works code point by code point.  The ASCII letters \<open>a\<close> .. \<open>z\<close> become
  \<open>A\<close> .. \<open>Z\<close> and the other ASCII characters stay.  Seventeen code points outside
  ASCII have an upper case with ASCII letters in it; they are listed with the UTF-8 bytes
  of the code point and of its upper case:
  U+00DF gives \<open>SS\<close>, U+0131 gives \<open>I\<close>, U+0149 gives U+02BC \<open>N\<close>, U+017F gives \<open>S\<close>,
  U+01F0 gives \<open>J\<close> U+030C, U+1E96 gives \<open>H\<close> U+0331, U+1E97 gives \<open>T\<close> U+0308,
  U+1E98 gives \<open>W\<close> U+030A, U+1E99 gives \<open>Y\<close> U+030A, U+1E9A gives \<open>A\<close> U+02BE, and the
  ligatures U+FB00 .. U+FB06 give \<open>FF\<close>, \<open>FI\<close>, \<open>FL\<close>, \<open>FFI\<close>, \<open>FFL\<close>, \<open>ST\<close>, \<open>ST\<close>.
  Every other code point outside ASCII has an upper case made of one or more code points
  outside ASCII; its bytes are left as they are here, which changes no occurrence of a
  text of ASCII characters in the result.
\<close>

definition ascii_upper :: "char \<Rightarrow> char" where
  "ascii_upper c =
     (case map_of (zip ''abcdefghijklmnopqrstuvwxyz'' ''ABCDEFGHIJKLMNOPQRSTUVWXYZ'') c of
        Some u \<Rightarrow> u
      | None \<Rightarrow> c)"

definition upper_especiales :: "(string \<times> string) list" where
  "upper_especiales =
     [([CHR 0xC3, CHR 0x9F], ''SS''),
      ([CHR 0xC4, CHR 0xB1], ''I''),
      ([CHR 0xC5, CHR 0x89], [CHR 0xCA, CHR 0xBC] @ ''N''),
      ([CHR 0xC5, CHR 0xBF], ''S''),
      ([CHR 0xC7, CHR 0xB0], ''J'' @ [CHR 0xCC, CHR 0x8C]),
      ([CHR 0xE1, CHR 0xBA, CHR 0x96], ''H'' @ [CHR 0xCC, CHR 0xB1]),
      ([CHR 0xE1, CHR 0xBA, CHR 0x97], ''T'' @ [CHR 0xCC, CHR 0x88]),
      ([CHR 0xE1, CHR 0xBA, CHR 0x98], ''W'' @ [CHR 0xCC, CHR 0x8A]),
      ([CHR 0xE1, CHR 0xBA, CHR 0x99], ''Y'' @ [CHR 0xCC, CHR 0x8A]),
      ([CHR 0xE1, CHR 0xBA, CHR 0x9A], ''A'' @ [CHR 0xCA, CHR 0xBE]),
      ([CHR 0xEF, CHR 0xAC, CHR 0x80], ''FF''),
      ([CHR 0xEF, CHR 0xAC, CHR 0x81], ''FI''),
      ([CHR 0xEF, CHR 0xAC, CHR 0x82], ''FL''),
      ([CHR 0xEF, CHR 0xAC, CHR 0x83], ''FFI''),
      ([CHR 0xEF, CHR 0xAC, CHR 0x84], ''FFL''),
      ([CHR 0xEF, CHR 0xAC, CHR 0x85], ''ST''),
      ([CHR 0xEF, CHR 0xAC, CHR 0x86], ''ST'')]"

text \<open>
  The text is read from the left: a code point of the table is replaced by its upper case,
  any other byte goes through \<open>ascii_upper\<close>.
\<close>

fun py_upper :: "string \<Rightarrow> string" where
  "py_upper (a # b # c # cs) =
     (case map_of upper_especiales [a, b, c] of
        Some u \<Rightarrow> u @ py_upper cs
      | None \<Rightarrow>
          (case map_of upper_especiales [a, b] of
             Some u \<Rightarrow> u @ py_upper (c # cs)
           | None \<Rightarrow> ascii_upper a # py_upper (b # c # cs)))"
| "py_upper [a, b] =
     (case map_of upper_especiales [a, b] of
        Some u \<Rightarrow> u
      | None \<Rightarrow> [ascii_upper a, ascii_upper b])"
| "py_upper [a] = [ascii_upper a]"
| "py_upper [] = []"

text \<open>
  The characters \<open>str.strip()\<close> removes (those with \<open>str.isspace()\<close>), as UTF-8 byte
  sequences: the ASCII ones U+0009 .. U+000D, U+001C .. U+001F and the space, then
  U+0085, U+00A0, U+1680, U+2000 .. U+200A, U+2028, U+2029, U+202F, U+205F, U+3000.
\<close>

definition py_space_ascii :: "char list" where
  "py_space_ascii =
     [CHR 0x09, CHR 0x0A, CHR 0x0B, CHR 0x0C, CHR 0x0D,
      CHR 0x1C, CHR 0x1D, CHR 0x1E, CHR 0x1F, CHR 0x20]"

definition py_space_tokens :: "string list" where
  "py_space_tokens =
     map (\<lambda>c. [c]) py_space_ascii @
     [[CHR 0xC2, CHR 0x85], [CHR 0xC2, CHR 0xA0], [CHR 0xE1, CHR 0x9A, CHR 0x80]] @
     map (\<lambda>c. [CHR 0xE2, CHR 0x80, c])
       [CHR 0x80, CHR 0x81, CHR 0x82, CHR 0x83, CHR 0x84, CHR 0x85, CHR 0x86, CHR 0x87,
        CHR 0x88, CHR 0x89, CHR 0x8A, CHR 0xA8, CHR 0xA9, CHR 0xAF] @
     [[CHR 0xE2, CHR 0x81, CHR 0x9F], [CHR 0xE3, CHR 0x80, CHR 0x80]]"

fun strip_token :: "string list \<Rightarrow> string \<Rightarrow> string option" where
  "strip_token [] s = None"
| "strip_token (t # ts) s =
     (if prefix t s then Some (drop (length t) s) else strip_token ts s)"

function strip_tokens :: "string list \<Rightarrow> string \<Rightarrow> string" where
  "strip_tokens toks s =
     (case strip_token toks s of
        None \<Rightarrow> s
      | Some r \<Rightarrow> if length r < length s then strip_tokens toks r else s)"
  by pat_completeness auto
termination
  by (relation "measure (\<lambda>(toks, s). length s)") auto

declare strip_tokens.simps [simp del]

definition py_lstrip :: "string \<Rightarrow> string" where
  "py_lstrip s = strip_tokens py_space_tokens s"

definition py_rstrip :: "string \<Rightarrow> string" where
  "py_rstrip s = rev (strip_tokens (map rev py_space_tokens) (rev s))"

definition py_strip :: "string \<Rightarrow> string" where
  "py_strip s = py_rstrip (py_lstrip s)"

text \<open>\<open>len\<close> of a \<open>str\<close> counts code points: the bytes that are not continuation bytes.\<close>

definition utf8_continuation :: "char \<Rightarrow> bool" where
  "utf8_continuation c \<longleftrightarrow> 0x80 \<le> (of_char c :: nat) \<and> (of_char c :: nat) < 0xC0"

definition py_len_str :: "string \<Rightarrow> nat" where
  "py_len_str s = length (filter (\<lambda>c. \<not> utf8_continuation c) s)"

subsection \<open>Floats and JSON-shaped values\<close>

text \<open>
  A Python \<open>float\<close>: a real number, the two infinities or NaN.  Rounding to binary64 is
  the business of whoever produces the number; \<open>0.0\<close> and \<open>-0.0\<close> are one value.
\<close>

datatype pyfloat = Finite real | PInf | NInf | NaN

text \<open>
  The values \<open>json.loads\<close> builds and a JSON column holds.  \<open>JNull\<close> is Python's
  \<open>None\<close>.  A \<open>dict\<close> is kept as its list of pairs in the order they were written.
\<close>

datatype json =
    JNull
  | JBool bool
  | JInt int
  | JFloat pyfloat
  | JStr string
  | JArr "json list"
  | JObj "(string \<times> json) list"

text \<open>The truth value Python gives a value in \<open>if x:\<close>, \<open>not x\<close> and \<open>x or y\<close>.\<close>

fun truthy :: "json \<Rightarrow> bool" where
  "truthy JNull = False"
| "truthy (JBool b) = b"
| "truthy (JInt i) = (i \<noteq> 0)"
| "truthy (JFloat f) = (f \<noteq> Finite 0)"
| "truthy (JStr s) = (s \<noteq> [])"
| "truthy (JArr xs) = (xs \<noteq> [])"
| "truthy (JObj kvs) = (kvs \<noteq> [])"

fun is_dict :: "json \<Rightarrow> bool" where
  "is_dict (JObj kvs) = True"
| "is_dict v = False"

text \<open>A nullable Boolean column or an optional string, tested with \<open>not x\<close>.\<close>

fun truthy_bool :: "bool option \<Rightarrow> bool" where
  "truthy_bool None = False"
| "truthy_bool (Some b) = b"

fun truthy_str :: "string option \<Rightarrow> bool" where
  "truthy_str None = False"
| "truthy_str (Some s) = (s \<noteq> [])"

subsection \<open>Exceptions\<close>

text \<open>An exception is its class and its text \<open>str(e)\<close>.\<close>

datatype error =
    TypeError string
  | AttributeError string
  | JSONDecodeError string
  | ValueError string
  | RecursionError string
  | OtherError string

fun str_error :: "error \<Rightarrow> string" where
  "str_error (TypeError m) = m"
| "str_error (AttributeError m) = m"
| "str_error (JSONDecodeError m) = m"
| "str_error (ValueError m) = m"
| "str_error (RecursionError m) = m"
| "str_error (OtherError m) = m"

text \<open>\<open>len(x)\<close>: only strings, lists and dicts have a length.\<close>

fun py_len :: "json \<Rightarrow> error + nat" where
  "py_len JNull = Inl (TypeError ''object of type 'NoneType' has no len()'')"
| "py_len (JBool b) = Inl (TypeError ''object of type 'bool' has no len()'')"
| "py_len (JInt i) = Inl (TypeError ''object of type 'int' has no len()'')"
| "py_len (JFloat f) = Inl (TypeError ''object of type 'float' has no len()'')"
| "py_len (JStr s) = Inr (py_len_str s)"
| "py_len (JArr xs) = Inr (length xs)"
| "py_len (JObj kvs) = Inr (length (remdups (map fst kvs)))"

section \<open>The record table (models/registro.py)\<close>

datatype TipoAnomalia =
    SIN_OC
  | SIN_FACTURA
  | SIN_OC_NI_FACTURA
  | ERROR_PROCESAMIENTO
  | DISCREPANCIAS

fun tipo_valor :: "TipoAnomalia \<Rightarrow> string" where
  "tipo_valor SIN_OC = ''sin_oc''"
| "tipo_valor SIN_FACTURA = ''sin_factura''"
| "tipo_valor SIN_OC_NI_FACTURA = ''sin_oc_ni_factura''"
| "tipo_valor ERROR_PROCESAMIENTO = ''error_procesamiento_factura''"
| "tipo_valor DISCREPANCIAS = ''discrepancias_encontradas''"

text \<open>One row of \<open>registros_webhook\<close>.  Timestamps are natural numbers.\<close>

record RegistroWebhook =
  reg_id :: nat
  fecha_recepcion :: nat
  ordenes_de_compra :: json
  factura_base64 :: "string option"
  procesado :: bool
  tiene_oc :: "bool option"
  tiene_factura :: "bool option"
  resultado_validacion :: "string option"
  es_anomalia :: bool
  tipo_anomalia :: "TipoAnomalia option"
  datos_factura_json :: json
  fecha_procesamiento :: "nat option"

text \<open>The property \<open>num_ordenes\<close>: \<open>len(self.ordenes_de_compra) if self.ordenes_de_compra else 0\<close>.\<close>

definition num_ordenes :: "RegistroWebhook \<Rightarrow> error + nat" where
  "num_ordenes reg =
     (if truthy (ordenes_de_compra reg) then py_len (ordenes_de_compra reg) else Inr 0)"

section \<open>The world outside the program\<close>

text \<open>
  The calls made to the two OpenAI collaborators are recorded, in order.  The answers of
  the outside world (the collaborators, the database sessions, the clock) are functions
  of \<open>reloj\<close>, the number of interactions so far, so that two calls with the same
  arguments may be answered differently.
\<close>

datatype evento =
    Extraccion "string option"
  | Comparacion json json

record mundo =
  filas :: "RegistroWebhook list"
  eventos :: "evento list"
  reloj :: nat

record entorno =
  extraer :: "nat \<Rightarrow> string option \<Rightarrow> error + json"
  chat :: "nat \<Rightarrow> json \<Rightarrow> json \<Rightarrow> error + string"
  db_falla :: "nat \<Rightarrow> error option"
  utcnow :: "nat \<Rightarrow> nat"

section \<open>The comparison call (services/openai/client.py)\<close>

definition error_comparacion :: "error \<Rightarrow> string" where
  "error_comparacion e =
     ''Error en comparaci'' @ [CHR 0xC3, CHR 0xB3] @ ''n: '' @ str_error e"

text \<open>
  \<open>comparar_factura_oc\<close>: the whole body is inside \<open>try\<close>.  It takes
  \<open>len(ordenes_de_compra)\<close> for the log, then builds the prompt, calls the chat
  completion and strips the answer (\<open>chat\<close>); any exception becomes the returned text.
\<close>

definition comparar_factura_oc :: "entorno \<Rightarrow> nat \<Rightarrow> json \<Rightarrow> json \<Rightarrow> string" where
  "comparar_factura_oc env n datos ocs =
     (case py_len ocs of
        Inl e \<Rightarrow> error_comparacion e
      | Inr k \<Rightarrow>
          (case chat env n datos ocs of
             Inl e \<Rightarrow> error_comparacion e
           | Inr contenido \<Rightarrow> py_strip contenido))"

section \<open>The validation engine (services/validator/validator.py)\<close>

record resultado =
  registro_id :: nat
  res_fecha_recepcion :: nat
  res_tiene_oc :: "bool option"
  res_tiene_factura :: "bool option"
  res_es_anomalia :: bool
  res_tipo_anomalia :: "TipoAnomalia option"
  resultado_openai :: "string option"
  datos_factura :: json
  res_num_ordenes :: "nat option"
  factura_base64_raw :: "string option"

definition resultado_inicial :: "RegistroWebhook \<Rightarrow> nat \<Rightarrow> resultado" where
  "resultado_inicial reg n =
     \<lparr> registro_id = reg_id reg,
       res_fecha_recepcion = fecha_recepcion reg,
       res_tiene_oc = tiene_oc reg,
       res_tiene_factura = tiene_factura reg,
       res_es_anomalia = False,
       res_tipo_anomalia = None,
       resultado_openai = None,
       datos_factura = JNull,
       res_num_ordenes = Some n,
       factura_base64_raw = factura_base64 reg \<rparr>"

text \<open>
  Step 2 of \<open>_validar_registro_individual\<close>, the \<open>try\<close> around the extraction.  The
  extracted data is stored in the result first; \<open>datos_factura.get\<close> then raises
  \<open>AttributeError\<close> on a true value that is not a dict, and the handler sets the local
  variable to \<open>None\<close> (the result keeps what was stored).  It returns the result, the
  local \<open>datos_factura\<close> and the world.
\<close>

definition paso_extraccion ::
  "entorno \<Rightarrow> RegistroWebhook \<Rightarrow> resultado \<Rightarrow> mundo \<Rightarrow> resultado \<times> json \<times> mundo" where
  "paso_extraccion env reg res w =
     (let w' = w\<lparr>eventos := eventos w @ [Extraccion (factura_base64 reg)],
                 reloj := Suc (reloj w)\<rparr>
      in case extraer env (reloj w) (factura_base64 reg) of
           Inl e \<Rightarrow> (res, JNull, w')
         | Inr d \<Rightarrow>
             (res\<lparr>datos_factura := d\<rparr>,
              if truthy d \<and> \<not> is_dict d then JNull else d,
              w'))"

text \<open>The test of step 4 on the comparison text.\<close>

definition comparacion_ok :: "string \<Rightarrow> bool" where
  "comparacion_ok comparacion =
     (let comparacion_upper = py_upper (py_strip comparacion)
      in py_in ''OK'' comparacion_upper \<and> \<not> py_in ''DISCREPANCIA'' comparacion_upper)"

definition falta_oc_texto :: string where
  "falta_oc_texto = ''No se pudo comparar: Falta Orden de Compra.''"

definition fallo_extraccion_texto :: string where
  "fallo_extraccion_texto =
     ''Fall'' @ [CHR 0xC3, CHR 0xB3] @ '' la extracci'' @ [CHR 0xC3, CHR 0xB3] @
     ''n de datos del PDF.''"

definition validar_registro_individual ::
  "entorno \<Rightarrow> RegistroWebhook \<Rightarrow> mundo \<Rightarrow> (error + resultado) \<times> mundo" where
  "validar_registro_individual env reg w =
     (case num_ordenes reg of
        Inl e \<Rightarrow> (Inl e, w)
      | Inr n \<Rightarrow>
          (let res = resultado_inicial reg n in
           if \<not> truthy_bool (tiene_factura reg) then
             (if \<not> truthy_bool (tiene_oc reg) then
                (Inr (res\<lparr>res_es_anomalia := True,
                           res_tipo_anomalia := Some SIN_OC_NI_FACTURA\<rparr>), w)
              else
                (Inr (res\<lparr>res_es_anomalia := True,
                           res_tipo_anomalia := Some SIN_FACTURA\<rparr>), w))
           else
             (case paso_extraccion env reg res w of (res1, datos, w1) \<Rightarrow>
                if \<not> truthy_bool (tiene_oc reg) then
                  (Inr (res1\<lparr>res_es_anomalia := True,
                              res_tipo_anomalia := Some SIN_OC,
                              resultado_openai := Some falta_oc_texto\<rparr>), w1)
                else if truthy datos then
                  (let comparacion =
                         comparar_factura_oc env (reloj w1) datos (ordenes_de_compra reg);
                       w2 = w1\<lparr>eventos :=
                                  eventos w1 @ [Comparacion datos (ordenes_de_compra reg)],
                                reloj := Suc (reloj w1)\<rparr>;
                       res2 = res1\<lparr>resultado_openai := Some comparacion\<rparr>
                   in if comparacion_ok comparacion then
                        (Inr (res2\<lparr>res_es_anomalia := False\<rparr>), w2)
                      else
                        (Inr (res2\<lparr>res_es_anomalia := True,
                                    res_tipo_anomalia := Some DISCREPANCIAS\<rparr>), w2))
                else
                  (Inr (res1\<lparr>res_es_anomalia := True,
                              res_tipo_anomalia := Some ERROR_PROCESAMIENTO,
                              resultado_openai :=
                                (if truthy_str (resultado_openai res1)
                                 then resultado_openai res1
                                 else Some fallo_extraccion_texto)\<rparr>), w1))))"

text \<open>
  \<open>_obtener_registros_pendientes\<close>: one database session; the rows with
  \<open>procesado == False\<close> (\<open>fecha_recepcion\<close> is never null), oldest first.  Rows received
  at the same time keep the order of the table.  A session that fails raises.
\<close>

definition obtener_registros_pendientes ::
  "entorno \<Rightarrow> mundo \<Rightarrow> (error + RegistroWebhook list) \<times> mundo" where
  "obtener_registros_pendientes env w =
     (case db_falla env (reloj w) of
        Some e \<Rightarrow> (Inl e, w\<lparr>reloj := Suc (reloj w)\<rparr>)
      | None \<Rightarrow>
          (Inr (sort_key fecha_recepcion (filter (\<lambda>r. \<not> procesado r) (filas w))),
           w\<lparr>reloj := Suc (reloj w)\<rparr>))"

text \<open>
  \<open>_actualizar_registro\<close>: one session updating the rows with the given id; a failing
  session is rolled back (no row changes) and the exception is raised again.
\<close>

definition marcar :: "resultado \<Rightarrow> nat \<Rightarrow> RegistroWebhook \<Rightarrow> RegistroWebhook" where
  "marcar res ahora r =
     r\<lparr>procesado := True,
       es_anomalia := res_es_anomalia res,
       tipo_anomalia := res_tipo_anomalia res,
       resultado_validacion := resultado_openai res,
       datos_factura_json := datos_factura res,
       fecha_procesamiento := Some ahora\<rparr>"

definition actualizar_registro ::
  "entorno \<Rightarrow> nat \<Rightarrow> resultado \<Rightarrow> mundo \<Rightarrow> error option \<times> mundo" where
  "actualizar_registro env rid res w =
     (case db_falla env (reloj w) of
        Some e \<Rightarrow> (Some e, w\<lparr>reloj := Suc (reloj w)\<rparr>)
      | None \<Rightarrow>
          (None,
           w\<lparr>filas := map (\<lambda>r. if reg_id r = rid
                                then marcar res (utcnow env (reloj w)) r else r) (filas w),
             reloj := Suc (reloj w)\<rparr>))"

text \<open>
  The body of the loop of \<open>validar_todos_los_registros\<close>.  \<open>intento\<close> is the \<open>try\<close>
  block: the log line reads \<open>num_ordenes\<close>, then the record is validated, the result
  appended and the row updated; it returns the exception raised, if any.
\<close>

definition intento ::
  "entorno \<Rightarrow> RegistroWebhook \<Rightarrow> mundo \<Rightarrow> resultado list
     \<Rightarrow> error option \<times> mundo \<times> resultado list" where
  "intento env reg w resultados =
     (case num_ordenes reg of
        Inl e \<Rightarrow> (Some e, w, resultados)
      | Inr n \<Rightarrow>
          (case validar_registro_individual env reg w of
             (Inl e, w1) \<Rightarrow> (Some e, w1, resultados)
           | (Inr res, w1) \<Rightarrow>
               (case actualizar_registro env (reg_id reg) res w1 of
                  (err, w2) \<Rightarrow> (err, w2, resultados @ [res]))))"

definition resultado_error :: "RegistroWebhook \<Rightarrow> error \<Rightarrow> resultado" where
  "resultado_error reg e =
     \<lparr> registro_id = reg_id reg,
       res_fecha_recepcion = fecha_recepcion reg,
       res_tiene_oc = tiene_oc reg,
       res_tiene_factura = tiene_factura reg,
       res_es_anomalia = True,
       res_tipo_anomalia = Some ERROR_PROCESAMIENTO,
       resultado_openai = Some (''Error: '' @ str_error e),
       datos_factura = JNull,
       res_num_ordenes = None,
       factura_base64_raw = factura_base64 reg \<rparr>"

text \<open>The \<open>except Exception\<close> handler: the update it makes is not guarded.\<close>

definition procesar_registro ::
  "entorno \<Rightarrow> RegistroWebhook \<Rightarrow> mundo \<Rightarrow> resultado list
     \<Rightarrow> error option \<times> mundo \<times> resultado list" where
  "procesar_registro env reg w resultados =
     (case intento env reg w resultados of
        (None, w1, rs1) \<Rightarrow> (None, w1, rs1)
      | (Some e, w1, rs1) \<Rightarrow>
          (case actualizar_registro env (reg_id reg) (resultado_error reg e) w1 of
             (err, w2) \<Rightarrow> (err, w2, rs1 @ [resultado_error reg e])))"

fun bucle ::
  "entorno \<Rightarrow> RegistroWebhook list \<Rightarrow> mundo \<Rightarrow> resultado list
     \<Rightarrow> (error + resultado list) \<times> mundo" where
  "bucle env [] w resultados = (Inr resultados, w)"
| "bucle env (reg # regs) w resultados =
     (case procesar_registro env reg w resultados of
        (Some e, w1, rs1) \<Rightarrow> (Inl e, w1)
      | (None, w1, rs1) \<Rightarrow> bucle env regs w1 rs1)"

definition validar_todos_los_registros ::
  "entorno \<Rightarrow> mundo \<Rightarrow> (error + resultado list) \<times> mundo" where
  "validar_todos_los_registros env w =
     (case obtener_registros_pendientes env w of
        (Inl e, w1) \<Rightarrow> (Inl e, w1)
      | (Inr registros, w1) \<Rightarrow>
          if registros = [] then (Inr [], w1) else bucle env registros w1 [])"

section \<open>Storing a submission (services/webhook/handler.py)\<close>

text \<open>
  \<open>_guardar_registro_sync\<close>: one session adding a row.  The key is the next integer
  after the keys in the table; \<open>fecha_recepcion\<close>, \<open>procesado\<close> and \<open>es_anomalia\<close>
  take the defaults of the columns.
\<close>

definition nuevo_id :: "mundo \<Rightarrow> nat" where
  "nuevo_id w = Suc (fold max (map reg_id (filas w)) 0)"

definition guardar_registro_sync ::
  "entorno \<Rightarrow> string option \<Rightarrow> json list \<Rightarrow> mundo \<Rightarrow> (error + nat) \<times> mundo" where
  "guardar_registro_sync env factura_b64 ocs w =
     (case db_falla env (reloj w) of
        Some e \<Rightarrow> (Inl e, w\<lparr>reloj := Suc (reloj w)\<rparr>)
      | None \<Rightarrow>
          (let nuevo =
                 \<lparr> reg_id = nuevo_id w,
                   fecha_recepcion = utcnow env (reloj w),
                   ordenes_de_compra = (if ocs \<noteq> [] then JArr ocs else JNull),
                   factura_base64 = factura_b64,
                   procesado = False,
                   tiene_oc = Some (if ocs \<noteq> [] then 0 < length ocs else False),
                   tiene_factura = Some (truthy_str factura_b64),
                   resultado_validacion = None,
                   es_anomalia = False,
                   tipo_anomalia = None,
                   datos_factura_json = JNull,
                   fecha_procesamiento = None \<rparr>
           in (Inr (reg_id nuevo),
               w\<lparr>filas := filas w @ [nuevo], reloj := Suc (reloj w)\<rparr>)))"

section \<open>Inputs used in the examples\<close>

definition env_fijo :: "json \<Rightarrow> (error + string) \<Rightarrow> (nat \<Rightarrow> error option) \<Rightarrow> entorno" where
  "env_fijo d c f =
     \<lparr> extraer = (\<lambda>n b. Inr d), chat = (\<lambda>n x y. c), db_falla = f, utcnow = (\<lambda>n. n) \<rparr>"

definition mundo_vacio :: mundo where
  "mundo_vacio = \<lparr> filas = [], eventos = [], reloj = 0 \<rparr>"

definition registro_nuevo :: "nat \<Rightarrow> nat \<Rightarrow> json \<Rightarrow> string option \<Rightarrow> RegistroWebhook" where
  "registro_nuevo i t ocs f =
     \<lparr> reg_id = i, fecha_recepcion = t, ordenes_de_compra = ocs, factura_base64 = f,
       procesado = False, tiene_oc = Some (truthy ocs), tiene_factura = Some (truthy_str f),
       resultado_validacion = None, es_anomalia = False, tipo_anomalia = None,
       datos_factura_json = JNull, fecha_procesamiento = None \<rparr>"

definition datos_ej :: json where
  "datos_ej = JObj [(''proveedor'', JStr ''ACME''), (''gran_total'', JInt 100)]"

definition ocs_ej :: json where
  "ocs_ej = JArr [JObj [(''id'', JStr ''7''), (''monto'', JInt 100)]]"

definition pdf_ej :: "string option" where
  "pdf_ej = Some ''JVBERi0xLjQK''"

definition reg_completo :: RegistroWebhook where
  "reg_completo = registro_nuevo 4 8 ocs_ej pdf_ej"

section \<open>The outcome invariant of a row\<close>

text \<open>A row that is not processed carries no outcome.\<close>

definition inv_registro :: "RegistroWebhook \<Rightarrow> bool" where
  "inv_registro r \<longleftrightarrow>
     (\<not> procesado r \<longrightarrow>
        \<not> es_anomalia r \<and> tipo_anomalia r = None \<and> fecha_procesamiento r = None)"

text \<open>
  What may happen to a row between two states of the table: nothing, or, for a row that was
  not processed, the one update of \<open>_actualizar_registro\<close>, which writes \<open>procesado\<close> and
  all the outcome fields together.
\<close>

definition transicion :: "RegistroWebhook \<Rightarrow> RegistroWebhook \<Rightarrow> bool" where
  "transicion r r' \<longleftrightarrow> r' = r \<or> (\<not> procesado r \<and> (\<exists>res t. r' = marcar res t r))"

text \<open>A store whose sessions fail from the given interaction on.\<close>

definition falla_desde :: "nat \<Rightarrow> nat \<Rightarrow> error option" where
  "falla_desde k n = (if k \<le> n then Some (OtherError ''database is locked'') else None)"

definition falla_solo :: "nat \<Rightarrow> nat \<Rightarrow> error option" where
  "falla_solo k n = (if n = k then Some (OtherError ''database is locked'') else None)"

definition mundo_uno :: mundo where
  "mundo_uno = \<lparr> filas = [registro_nuevo 1 5 JNull None], eventos = [], reloj = 0 \<rparr>"

text \<open>
  The invariant of the batch loop: the pending records still to be treated have different
  keys, and the rows with those keys are not processed.
\<close>

definition pendientes_ok :: "RegistroWebhook list \<Rightarrow> RegistroWebhook list \<Rightarrow> bool" where
  "pendientes_ok regs rows \<longleftrightarrow>
     distinct (map reg_id regs) \<and>
     (\<forall>reg\<in>set regs. \<forall>r\<in>set rows. reg_id r = reg_id reg \<longrightarrow> \<not> procesado r)"

text \<open>A table with two pending rows; the second was received first.\<close>

definition mundo_dos :: mundo where
  "mundo_dos =
     \<lparr> filas = [registro_nuevo 1 5 JNull None, registro_nuevo 2 3 ocs_ej pdf_ej],
       eventos = [], reloj = 0 \<rparr>"

section \<open>Normalising a purchase order (services/webhook/handler.py)\<close>

text \<open>
  A field declared \<open>Optional[Union[float, str]]\<close> holds a float or a text; the field
  \<open>oc_attached_data\<close>, declared \<open>Optional[Union[OCAttachedData, Dict]]\<close>, holds a model
  object or a plain dict.
\<close>

datatype monto_crudo = MFloat pyfloat | MStr string

datatype adjunto = Modelo "(string \<times> json) list" | Dicc "(string \<times> json) list"

text \<open>
  The fields of \<open>OrdenCompraInput\<close> after validation, with the types of their
  declarations.  The fields \<open>id\<close> and \<open>total\<close> carry a prime.
\<close>

record OrdenCompraInput =
  VendorName :: "string option"
  vendor_name :: "string option"
  proveedor :: "string option"
  our_company :: "string option"
  empresa :: "string option"
  receptor :: "string option"
  total' :: "monto_crudo option"
  monto :: "monto_crudo option"
  amount :: "monto_crudo option"
  moneda :: "string option"
  currency :: "string option"
  id' :: "string option"
  oc_id :: "string option"
  order_id :: "string option"
  oc_attached_data :: "adjunto option"
  datos_adicionales :: "(string \<times> json) list option"
  concepto :: "string option"
  description :: "string option"

text \<open>
  The functions of the Python library and of the packages the program calls are not part of
  its source.  Those whose behaviour on every input matters here are parameters of the
  model:
  \<^item> \<open>py_float\<close> is \<open>float\<close> applied to a \<open>str\<close>, which returns a float or raises
    \<open>ValueError\<close>;
  \<^item> \<open>py_int\<close> is \<open>int\<close> applied to a \<open>str\<close>, which also raises \<open>ValueError\<close> when the text
    has more digits than the interpreter allows;
  \<^item> \<open>str_upper\<close> is \<open>str.upper()\<close>;
  \<^item> \<open>validar_modelo\<close> is the construction \<open>OrdenCompraInput(**item)\<close> of the model object
    from a dict, which validates the fields and may raise;
  \<^item> \<open>sub_claves\<close> is the substitution \<open>re.sub(pattern, add_quotes, fixed)\<close> of
    \<open>fix_malformed_json\<close>;
  \<^item> \<open>literal_eval\<close> is \<open>ast.literal_eval\<close>; a tuple or a set it returns is given as the
    list of its members;
  \<^item> \<open>limite_recursion\<close> is the number of nested calls the interpreter still allows when
    \<open>json.loads\<close> is entered.
\<close>

record biblioteca =
  py_float :: "string \<Rightarrow> error + pyfloat"
  py_int :: "string \<Rightarrow> error + int"
  str_upper :: "string \<Rightarrow> string"
  validar_modelo :: "(string \<times> json) list \<Rightarrow> error + OrdenCompraInput"
  sub_claves :: "string \<Rightarrow> string"
  literal_eval :: "string \<Rightarrow> error + json"
  limite_recursion :: nat

text \<open>
  \<open>a or b\<close> is \<open>a\<close> when \<open>a\<close> is true and \<open>b\<close> otherwise.  An optional text is true when
  it is there and not empty, a float when it is not zero, a model object always, a dict when
  it is not empty.
\<close>

definition py_or :: "('a \<Rightarrow> bool) \<Rightarrow> 'a \<Rightarrow> 'a \<Rightarrow> 'a" where
  "py_or t a b = (if t a then a else b)"

fun truthy_monto :: "monto_crudo option \<Rightarrow> bool" where
  "truthy_monto None = False"
| "truthy_monto (Some (MFloat x)) = (x \<noteq> Finite 0)"
| "truthy_monto (Some (MStr s)) = (s \<noteq> [])"

fun truthy_adjunto :: "adjunto option \<Rightarrow> bool" where
  "truthy_adjunto None = False"
| "truthy_adjunto (Some (Modelo kvs)) = True"
| "truthy_adjunto (Some (Dicc kvs)) = (kvs \<noteq> [])"

text \<open>A chain \<open>a or b or c or d\<close> of optional texts that ends with a literal.\<close>

definition or_str :: "string option \<Rightarrow> string option \<Rightarrow> string option \<Rightarrow> string \<Rightarrow> string" where
  "or_str a b c d =
     (case py_or truthy_str a (py_or truthy_str b (py_or truthy_str c (Some d))) of
        Some s \<Rightarrow> s
      | None \<Rightarrow> d)"

text \<open>\<open>s.replace(c, '')\<close> for a single ASCII character \<open>c\<close>.\<close>

definition quitar :: "char \<Rightarrow> string \<Rightarrow> string" where
  "quitar c s = filter (\<lambda>x. x \<noteq> c) s"

text \<open>
  The body of the \<open>try\<close> of \<open>to_normalized_dict\<close>: a text loses its commas and dollar
  signs and is stripped, then \<open>float\<close> is applied (to a float it is the identity).
\<close>

definition convertir_monto :: "biblioteca \<Rightarrow> monto_crudo \<Rightarrow> error + pyfloat" where
  "convertir_monto lib raw_monto =
     (case raw_monto of
        MFloat x \<Rightarrow> Inr x
      | MStr s \<Rightarrow> py_float lib (py_strip (quitar CHR ''$'' (quitar CHR '','' s))))"

text \<open>\<open>d.get(k)\<close> on a dict kept as a list of pairs.\<close>

definition dict_get :: "(string \<times> json) list \<Rightarrow> string \<Rightarrow> json" where
  "dict_get d k = (case map_of d k of Some v \<Rightarrow> v | None \<Rightarrow> JNull)"

text \<open>The entries added for the attached data when it is a plain dict.\<close>

definition entradas_adjunto :: "adjunto option \<Rightarrow> (string \<times> json) list" where
  "entradas_adjunto adj =
     (case adj of
        Some (Dicc d) \<Rightarrow>
          [(''datos_adjuntos'', JObj d)] @
          (case map_of d ''oc_subject'' of Some v \<Rightarrow> [(''concepto'', v)] | None \<Rightarrow> []) @
          (case map_of d ''oc_poDate'' of Some v \<Rightarrow> [(''fecha_orden'', v)] | None \<Rightarrow> []) @
          (let servicios = py_or truthy (dict_get d ''adquired_services'')
                                        (dict_get d ''adquired_serviecs'')
           in if truthy servicios then [(''servicios'', servicios)] else [])
      | _ \<Rightarrow> [])"

definition to_normalized_dict :: "biblioteca \<Rightarrow> OrdenCompraInput \<Rightarrow> (string \<times> json) list" where
  "to_normalized_dict lib self =
     (let prov = or_str (proveedor self) (VendorName self) (vendor_name self) ''N/A'';
          emp = or_str (empresa self) (our_company self) (receptor self) ''N/A'';
          raw_monto =
            (case py_or truthy_monto (monto self)
                    (py_or truthy_monto (total' self) (py_or truthy_monto (amount self)
                       (Some (MFloat (Finite 0))))) of
               Some r \<Rightarrow> r
             | None \<Rightarrow> MFloat (Finite 0));
          mnt = (case convertir_monto lib raw_monto of Inr x \<Rightarrow> x | Inl e \<Rightarrow> Finite 0);
          mon = str_upper lib
                  (case py_or truthy_str (moneda self) (py_or truthy_str (currency self)
                          (Some ''MXN'')) of
                     Some s \<Rightarrow> s
                   | None \<Rightarrow> ''MXN'');
          oid = or_str (id' self) (oc_id self) (order_id self) ''N/A'';
          adj = py_or truthy_adjunto (oc_attached_data self)
                  (map_option Dicc (datos_adicionales self))
      in [(''id'', JStr oid), (''proveedor'', JStr prov), (''empresa'', JStr emp),
          (''monto'', JFloat mnt), (''moneda'', JStr mon)] @ entradas_adjunto adj)"

section \<open>Reading JSON (json.loads)\<close>




text \<open>The integer written by an optional minus sign and decimal digits.\<close>

definition valor_digito :: "char \<Rightarrow> nat" where
  "valor_digito c =
     (case map_of (zip ''0123456789'' [0, 1, 2, 3, 4, 5, 6, 7, 8, 9]) c of
        Some d \<Rightarrow> d
      | None \<Rightarrow> 0)"

definition nat_de_digitos :: "string \<Rightarrow> nat" where
  "nat_de_digitos s = foldl (\<lambda>acc c. 10 * acc + valor_digito c) 0 s"

definition int_de_texto :: "string \<Rightarrow> int" where
  "int_de_texto s =
     (case s of
        [] \<Rightarrow> 0
      | c # cs \<Rightarrow> if c = CHR ''-'' then - int (nat_de_digitos cs) else int (nat_de_digitos s))"

















section \<open>The flexible parser (utils/helpers.py)\<close>






section \<open>The ingestion endpoint (services/webhook/handler.py)\<close>








text \<open>
  \<open>for item in raw_list\<close>: a list gives its members, a text its code points, a dict its
  keys; \<open>None\<close>, a Boolean and a number raise \<open>TypeError\<close>.
\<close>

function puntos :: "string \<Rightarrow> string list" where
  "puntos [] = []"
| "puntos (c # cs) =
     (c # takeWhile utf8_continuation cs) # puntos (dropWhile utf8_continuation cs)"
  by pat_completeness auto
termination
  by (relation "measure length") (auto simp: length_dropWhile_le less_Suc_eq_le)

fun tipo_nombre :: "json \<Rightarrow> string" where
  "tipo_nombre JNull = ''NoneType''"
| "tipo_nombre (JBool b) = ''bool''"
| "tipo_nombre (JInt i) = ''int''"
| "tipo_nombre (JFloat x) = ''float''"
| "tipo_nombre (JStr s) = ''str''"
| "tipo_nombre (JArr xs) = ''list''"
| "tipo_nombre (JObj d) = ''dict''"

definition no_iterable :: "json \<Rightarrow> error" where
  "no_iterable v = TypeError ([CHR 0x27] @ tipo_nombre v @ [CHR 0x27] @ '' object is not iterable'')"

fun py_iter :: "json \<Rightarrow> error + json list" where
  "py_iter (JArr xs) = Inr xs"
| "py_iter (JStr s) = Inr (map JStr (puntos s))"
| "py_iter (JObj d) = Inr (map (\<lambda>kv. JStr (fst kv)) d)"
| "py_iter v = Inl (no_iterable v)"

text \<open>
  The body of the loop: a dict is made into the model object and normalised; when that
  raises, and for a member that is not a dict, the member is kept as it is.
\<close>

definition normalizar_item :: "biblioteca \<Rightarrow> json \<Rightarrow> json" where
  "normalizar_item lib item =
     (case item of
        JObj d \<Rightarrow>
          (case validar_modelo lib d of
             Inl e \<Rightarrow> item
           | Inr oc \<Rightarrow> JObj (to_normalized_dict lib oc))
      | _ \<Rightarrow> item)"

text \<open>
  What is done with a true \<open>raw_list\<close>: a dict becomes the list of that one dict, the
  members are treated in order, and the log line that follows calls \<open>get\<close> on the first
  of them, which raises \<open>AttributeError\<close> when it is not a dict.
\<close>

definition sin_get :: "json \<Rightarrow> error" where
  "sin_get v =
     AttributeError ([CHR 0x27] @ tipo_nombre v @ [CHR 0x27] @ '' object has no attribute ''
                     @ [CHR 0x27] @ ''get'' @ [CHR 0x27])"

definition procesar_lista :: "biblioteca \<Rightarrow> json \<Rightarrow> error + json list" where
  "procesar_lista lib raw_list =
     (case py_iter (if is_dict raw_list then JArr [raw_list] else raw_list) of
        Inl e \<Rightarrow> Inl e
      | Inr items \<Rightarrow>
          (let ocs_finales = map (normalizar_item lib) items
           in case ocs_finales of
                [] \<Rightarrow> Inr ocs_finales
              | ej # resto \<Rightarrow> if is_dict ej then Inr ocs_finales else Inl (sin_get ej)))"





section \<open>A library for the examples\<close>

text \<open>
  A library for the examples: \<open>float_ej\<close> reads an unsigned decimal numeral with an
  optional fraction and raises \<open>ValueError\<close> on any other text, as \<open>float\<close> does on these
  texts; \<open>str_upper\<close> is \<open>py_upper\<close>.
\<close>

definition digito :: "char \<Rightarrow> nat option" where
  "digito c = map_of (zip ''0123456789'' [0, 1, 2, 3, 4, 5, 6, 7, 8, 9]) c"

fun valor_digitos :: "nat \<Rightarrow> string \<Rightarrow> nat option" where
  "valor_digitos acc [] = Some acc"
| "valor_digitos acc (c # cs) =
     (case digito c of
        None \<Rightarrow> None
      | Some d \<Rightarrow> valor_digitos (10 * acc + d) cs)"

definition float_ej :: "string \<Rightarrow> error + pyfloat" where
  "float_ej s =
     (let entero = takeWhile (\<lambda>c. c \<noteq> CHR ''.'') s;
          resto = dropWhile (\<lambda>c. c \<noteq> CHR ''.'') s;
          frac = (if resto = [] then [] else tl resto)
      in case (if entero = [] then None else valor_digitos 0 entero, valor_digitos 0 frac) of
           (Some a, Some b) \<Rightarrow> Inr (Finite (real a + real b / 10 ^ length frac))
         | _ \<Rightarrow> Inl (ValueError (''could not convert string to float: '' @ [CHR 0x27] @ s @ [CHR 0x27])))"

text \<open>
  The construction of the model object in the examples takes the fields that hold a text
  (a number or a text for the three amounts, a dict for the two attached fields) and
  rejects a dict where one of these fields holds a value of another type.
\<close>

definition claves_str :: "string list" where
  "claves_str =
     [''VendorName'', ''vendor_name'', ''proveedor'', ''our_company'', ''empresa'',
      ''receptor'', ''moneda'', ''currency'', ''id'', ''oc_id'', ''order_id'', ''concepto'',
      ''description'']"

fun es_str :: "json option \<Rightarrow> bool" where
  "es_str None = True"
| "es_str (Some JNull) = True"
| "es_str (Some (JStr s)) = True"
| "es_str (Some v) = False"

fun es_monto :: "json option \<Rightarrow> bool" where
  "es_monto None = True"
| "es_monto (Some JNull) = True"
| "es_monto (Some (JStr s)) = True"
| "es_monto (Some (JInt i)) = True"
| "es_monto (Some (JFloat x)) = True"
| "es_monto (Some v) = False"

fun es_dict :: "json option \<Rightarrow> bool" where
  "es_dict None = True"
| "es_dict (Some JNull) = True"
| "es_dict (Some (JObj d)) = True"
| "es_dict (Some v) = False"

fun str_de :: "json option \<Rightarrow> string option" where
  "str_de (Some (JStr s)) = Some s"
| "str_de v = None"

fun monto_de :: "json option \<Rightarrow> monto_crudo option" where
  "monto_de (Some (JStr s)) = Some (MStr s)"
| "monto_de (Some (JInt i)) = Some (MFloat (Finite (of_int i)))"
| "monto_de (Some (JFloat x)) = Some (MFloat x)"
| "monto_de v = None"

fun dict_de :: "json option \<Rightarrow> (string \<times> json) list option" where
  "dict_de (Some (JObj d)) = Some d"
| "dict_de v = None"

definition validar_ej :: "(string \<times> json) list \<Rightarrow> error + OrdenCompraInput" where
  "validar_ej item =
     (if list_all (\<lambda>k. es_str (map_of item k)) claves_str \<and>
         list_all (\<lambda>k. es_monto (map_of item k)) [''total'', ''monto'', ''amount''] \<and>
         list_all (\<lambda>k. es_dict (map_of item k)) [''oc_attached_data'', ''datos_adicionales'']
      then Inr
        \<lparr> VendorName = str_de (map_of item ''VendorName''),
          vendor_name = str_de (map_of item ''vendor_name''),
          proveedor = str_de (map_of item ''proveedor''),
          our_company = str_de (map_of item ''our_company''),
          empresa = str_de (map_of item ''empresa''),
          receptor = str_de (map_of item ''receptor''),
          total' = monto_de (map_of item ''total''),
          monto = monto_de (map_of item ''monto''),
          amount = monto_de (map_of item ''amount''),
          moneda = str_de (map_of item ''moneda''),
          currency = str_de (map_of item ''currency''),
          id' = str_de (map_of item ''id''),
          oc_id = str_de (map_of item ''oc_id''),
          order_id = str_de (map_of item ''order_id''),
          oc_attached_data = map_option Modelo (dict_de (map_of item ''oc_attached_data'')),
          datos_adicionales = dict_de (map_of item ''datos_adicionales''),
          concepto = str_de (map_of item ''concepto''),
          description = str_de (map_of item ''description'') \<rparr>
      else Inl (OtherError ''validation error for OrdenCompraInput''))"

text \<open>
  The library of the examples.  Its functions return what the real ones return on the
  texts of the examples: these have no letter outside ASCII, no bare key before a colon
  and, where they are not JSON, are not Python literals either.
\<close>

definition lib_ej :: biblioteca where
  "lib_ej =
     \<lparr> py_float = float_ej, py_int = (\<lambda>s. Inr (int_de_texto s)), str_upper = py_upper,
       validar_modelo = validar_ej,
       sub_claves = (\<lambda>s. s),
       literal_eval = (\<lambda>s. Inl (ValueError ''malformed node or string'')),
       limite_recursion = 900 \<rparr>"

definition oc_vacia :: OrdenCompraInput where
  "oc_vacia =
     \<lparr> VendorName = None, vendor_name = None, proveedor = None, our_company = None,
       empresa = None, receptor = None, total' = None, monto = None, amount = None,
       moneda = None, currency = None, id' = None, oc_id = None, order_id = None,
       oc_attached_data = None, datos_adicionales = None, concepto = None,
       description = None \<rparr>"

section \<open>Verification\<close>

subsection \<open>The decision sequence of one record\<close>

text \<open>
  Claim C1.  For a record whose \<open>num_ordenes\<close> can be read: without invoice and without
  purchase orders the outcome is the anomaly \<open>sin_oc_ni_factura\<close>, without invoice but
  with purchase orders it is \<open>sin_factura\<close>, and in both cases the world is left as it
  was, so neither collaborator is called.  With an invoice and without purchase orders the
  outcome is the anomaly \<open>sin_oc\<close> with the fixed text; the extraction was called once,
  first, the comparison was not, and what the extraction returned is kept in the outcome.
\<close>

theorem C1_missing_data:
  assumes "num_ordenes reg = Inr n"
  shows
   "(\<not> truthy_bool (tiene_factura reg) \<and> \<not> truthy_bool (tiene_oc reg) \<longrightarrow>
       validar_registro_individual env reg w =
         (Inr ((resultado_inicial reg n)\<lparr>res_es_anomalia := True,
               res_tipo_anomalia := Some SIN_OC_NI_FACTURA\<rparr>), w)) \<and>
    (\<not> truthy_bool (tiene_factura reg) \<and> truthy_bool (tiene_oc reg) \<longrightarrow>
       validar_registro_individual env reg w =
         (Inr ((resultado_inicial reg n)\<lparr>res_es_anomalia := True,
               res_tipo_anomalia := Some SIN_FACTURA\<rparr>), w)) \<and>
    (truthy_bool (tiene_factura reg) \<and> \<not> truthy_bool (tiene_oc reg) \<longrightarrow>
       validar_registro_individual env reg w =
         (Inr ((resultado_inicial reg n)
                 \<lparr>res_es_anomalia := True,
                  res_tipo_anomalia := Some SIN_OC,
                  resultado_openai := Some falta_oc_texto,
                  datos_factura :=
                    (case extraer env (reloj w) (factura_base64 reg) of
                       Inl e \<Rightarrow> JNull | Inr d \<Rightarrow> d)\<rparr>),
          w\<lparr>eventos := eventos w @ [Extraccion (factura_base64 reg)],
            reloj := Suc (reloj w)\<rparr>))"
  using assms
  by (auto simp: validar_registro_individual_def paso_extraccion_def Let_def
        resultado_inicial_def split: sum.splits)

theorem C1_missing_data_witness:
  "num_ordenes (registro_nuevo 1 5 JNull None) = Inr 0 \<and>
   num_ordenes (registro_nuevo 2 6 ocs_ej None) = Inr 1 \<and>
   num_ordenes (registro_nuevo 3 7 JNull pdf_ej) = Inr 0 \<and>
   map_sum id res_tipo_anomalia
     (fst (validar_registro_individual (env_fijo datos_ej (Inr ''OK'') (\<lambda>n. None))
            (registro_nuevo 1 5 JNull None) mundo_vacio)) = Inr (Some SIN_OC_NI_FACTURA) \<and>
   map_sum id res_tipo_anomalia
     (fst (validar_registro_individual (env_fijo datos_ej (Inr ''OK'') (\<lambda>n. None))
            (registro_nuevo 2 6 ocs_ej None) mundo_vacio)) = Inr (Some SIN_FACTURA) \<and>
   map_sum id (\<lambda>r. (res_tipo_anomalia r, datos_factura r))
     (fst (validar_registro_individual (env_fijo datos_ej (Inr ''OK'') (\<lambda>n. None))
            (registro_nuevo 3 7 JNull pdf_ej) mundo_vacio)) = Inr (Some SIN_OC, datos_ej) \<and>
   eventos (snd (validar_registro_individual (env_fijo datos_ej (Inr ''OK'') (\<lambda>n. None))
            (registro_nuevo 3 7 JNull pdf_ej) mundo_vacio)) = [Extraccion pdf_ej]"
proof -
  have a: "num_ordenes (registro_nuevo 1 5 JNull None) = Inr 0"
    by (simp add: num_ordenes_def registro_nuevo_def)
  have b: "num_ordenes (registro_nuevo 2 6 ocs_ej None) = Inr 1"
    by (simp add: num_ordenes_def registro_nuevo_def ocs_ej_def)
  have c: "num_ordenes (registro_nuevo 3 7 JNull pdf_ej) = Inr 0"
    by (simp add: num_ordenes_def registro_nuevo_def)
  show ?thesis
    using a b c
      C1_missing_data [OF a, of "env_fijo datos_ej (Inr ''OK'') (\<lambda>n. None)" mundo_vacio]
      C1_missing_data [OF b, of "env_fijo datos_ej (Inr ''OK'') (\<lambda>n. None)" mundo_vacio]
      C1_missing_data [OF c, of "env_fijo datos_ej (Inr ''OK'') (\<lambda>n. None)" mundo_vacio]
    by (simp add: registro_nuevo_def ocs_ej_def pdf_ej_def env_fijo_def mundo_vacio_def)
qed

text \<open>
  Claim C2, as the code has it.  For a record with an invoice and purchase orders whose
  extraction returned a non-empty dict, the outcome is a function of the text the
  comparison returned: it is not an anomaly when the upper-cased text contains \<open>OK\<close> and
  does not contain \<open>DISCREPANCIA\<close>, and it is the anomaly \<open>discrepancias_encontradas\<close>
  otherwise.  The token of the negative test is the Spanish \<open>DISCREPANCIA\<close>.
\<close>

theorem C2_classification:
  assumes "num_ordenes reg = Inr n"
    and "truthy_bool (tiene_factura reg)" and "truthy_bool (tiene_oc reg)"
    and "extraer env (reloj w) (factura_base64 reg) = Inr d"
    and "truthy d" and "is_dict d"
  shows
   "validar_registro_individual env reg w =
      (let comparacion = comparar_factura_oc env (Suc (reloj w)) d (ordenes_de_compra reg);
           comparacion_upper = py_upper (py_strip comparacion);
           ok = (py_in ''OK'' comparacion_upper \<and> \<not> py_in ''DISCREPANCIA'' comparacion_upper)
       in (Inr ((resultado_inicial reg n)
                  \<lparr>datos_factura := d,
                   resultado_openai := Some comparacion,
                   res_es_anomalia := \<not> ok,
                   res_tipo_anomalia := (if ok then None else Some DISCREPANCIAS)\<rparr>),
           w\<lparr>eventos := eventos w @ [Extraccion (factura_base64 reg),
                                       Comparacion d (ordenes_de_compra reg)],
             reloj := Suc (Suc (reloj w))\<rparr>))"
  using assms
  by (auto simp: validar_registro_individual_def paso_extraccion_def Let_def
        resultado_inicial_def comparacion_ok_def)

theorem C2_classification_witness:
  "map_sum id (\<lambda>r. (res_es_anomalia r, res_tipo_anomalia r, resultado_openai r))
     (fst (validar_registro_individual
        (env_fijo datos_ej (Inr ''ok discrepancia both present'') (\<lambda>n. None))
        reg_completo mundo_vacio))
   = Inr (True, Some DISCREPANCIAS, Some ''ok discrepancia both present'')"
proof -
  let ?env = "env_fijo datos_ej (Inr ''ok discrepancia both present'') (\<lambda>n. None)"
  have a: "num_ordenes reg_completo = Inr 1"
    by (simp add: num_ordenes_def reg_completo_def registro_nuevo_def ocs_ej_def)
  have b: "truthy_bool (tiene_factura reg_completo)" "truthy_bool (tiene_oc reg_completo)"
    by (simp_all add: reg_completo_def registro_nuevo_def ocs_ej_def pdf_ej_def)
  have c: "extraer ?env (reloj mundo_vacio) (factura_base64 reg_completo) = Inr datos_ej"
    by (simp add: env_fijo_def)
  have d: "truthy datos_ej" "is_dict datos_ej"
    by (simp_all add: datos_ej_def)
  have s: "comparar_factura_oc ?env (Suc (reloj mundo_vacio)) datos_ej
             (ordenes_de_compra reg_completo) = ''ok discrepancia both present''"
    by code_simp
  have u: "py_upper (py_strip ''ok discrepancia both present'')
             = ''OK DISCREPANCIA BOTH PRESENT''"
    by code_simp
  show ?thesis
    using C2_classification [OF a b c d]
    by (simp add: s u Let_def)
qed

text \<open>
  Claim C2 as stated names \<open>DISCREPANCY\<close> as the token of the negative test.  A
  comparison text that contains \<open>OK\<close> and the English word is not an anomaly for the
  code.
\<close>

theorem C2_counterexample:
  "py_in ''OK'' (py_upper (py_strip ''OK - no discrepancy'')) \<and>
   py_in ''DISCREPANCY'' (py_upper (py_strip ''OK - no discrepancy'')) \<and>
   map_sum id (\<lambda>r. (res_es_anomalia r, res_tipo_anomalia r))
     (fst (validar_registro_individual
        (env_fijo datos_ej (Inr ''OK - no discrepancy'') (\<lambda>n. None))
        reg_completo mundo_vacio))
   = Inr (False, None)"
  by code_simp

text \<open>
  The upper case is taken with the code points outside ASCII that become ASCII letters:
  a text that writes the word with a dotless i (U+0131) has \<open>DISCREPANCIA\<close> in its upper
  case, and the record is the anomaly \<open>discrepancias_encontradas\<close>.
\<close>

lemma upper_dotless_i:
  "py_upper (py_strip (''OK - sin d'' @ [CHR 0xC4, CHR 0xB1] @ ''screpancia''))
     = ''OK - SIN DISCREPANCIA'' \<and>
   map_sum id (\<lambda>r. (res_es_anomalia r, res_tipo_anomalia r))
     (fst (validar_registro_individual
        (env_fijo datos_ej (Inr (''OK - sin d'' @ [CHR 0xC4, CHR 0xB1] @ ''screpancia''))
           (\<lambda>n. None))
        reg_completo mundo_vacio))
   = Inr (True, Some DISCREPANCIAS)"
  by code_simp

lemma upper_ligatures:
  "py_upper ([CHR 0xC3, CHR 0x9F] @ ''a'' @ [CHR 0xEF, CHR 0xAC, CHR 0x83] @
             [CHR 0xC5, CHR 0xBF] @ [CHR 0xE1, CHR 0xBA, CHR 0x9A])
     = ''SSAFFIS'' @ ''A'' @ [CHR 0xCA, CHR 0xBE]"
  by code_simp

text \<open>
  Claim C10.  \<open>comparar_factura_oc\<close> turns an exception of the chat call into the text
  \<open>Error en comparaci\<dots>n: \<close> followed by the exception text.  When the exception text has
  the letters \<open>ok\<close> in it (here in \<open>tokens\<close>), the test of step 4 finds \<open>OK\<close> in the
  upper-cased text and the record is stored as not anomalous.
\<close>

theorem C10_error_text_classified_ok:
  "comparar_factura_oc
     (env_fijo datos_ej (Inl (OtherError ''Rate limit reached on tokens per min''))
        (\<lambda>n. None))
     1 datos_ej ocs_ej
   = ''Error en comparaci'' @ [CHR 0xC3, CHR 0xB3] @
     ''n: Rate limit reached on tokens per min'' \<and>
   map_sum id (\<lambda>r. (res_es_anomalia r, res_tipo_anomalia r))
     (fst (validar_registro_individual
        (env_fijo datos_ej (Inl (OtherError ''Rate limit reached on tokens per min''))
           (\<lambda>n. None))
        reg_completo mundo_vacio))
   = Inr (False, None)"
  by code_simp

subsection \<open>The batch and the table\<close>

lemma validar_filas: "filas (snd (validar_registro_individual env reg w)) = filas w"
  by (auto simp: validar_registro_individual_def paso_extraccion_def Let_def split: sum.splits)

lemma actualizar_cases:
  assumes "actualizar_registro env i res w = (err, w')"
  shows "(err \<noteq> None \<and> filas w' = filas w) \<or>
     (err = None \<and>
      filas w' = map (\<lambda>r. if reg_id r = i then marcar res (utcnow env (reloj w)) r else r) (filas w))"
proof (cases "db_falla env (reloj w)")
  case None
  with assms have "err = None"
    and "w' = w\<lparr>filas := map (\<lambda>r. if reg_id r = i then marcar res (utcnow env (reloj w)) r else r) (filas w),
             reloj := Suc (reloj w)\<rparr>"
    by (simp_all add: actualizar_registro_def)
  then show ?thesis by simp
next
  case (Some e)
  with assms have "err = Some e" and "w' = w\<lparr>reloj := Suc (reloj w)\<rparr>"
    by (simp_all add: actualizar_registro_def)
  then show ?thesis by simp
qed

lemma intento_cases:
  assumes "intento env reg w rs = (err, w', rs')"
  shows "(err \<noteq> None \<and> filas w' = filas w) \<or>
     (err = None \<and> (\<exists>res t. filas w' =
        map (\<lambda>r. if reg_id r = reg_id reg then marcar res t r else r) (filas w)))"
proof (cases "num_ordenes reg")
  case (Inl e)
  with assms show ?thesis by (auto simp: intento_def)
next
  case (Inr n)
  obtain v w1 where v: "validar_registro_individual env reg w = (v, w1)" by force
  have f1: "filas w1 = filas w" using validar_filas [of env reg w] v by simp
  show ?thesis
  proof (cases v)
    case (Inl e)
    with assms Inr v f1 show ?thesis by (auto simp: intento_def)
  next
    case r: (Inr res)
    obtain e2 w2 where a: "actualizar_registro env (reg_id reg) res w1 = (e2, w2)" by force
    from assms Inr v r a have "err = e2" "w' = w2" by (auto simp: intento_def)
    with actualizar_cases [OF a] f1 show ?thesis by auto
  qed
qed

lemma procesar_cases:
  assumes "procesar_registro env reg w rs = (err, w', rs')"
  shows "(err \<noteq> None \<and> filas w' = filas w) \<or>
     (err = None \<and> (\<exists>res t. filas w' =
        map (\<lambda>r. if reg_id r = reg_id reg then marcar res t r else r) (filas w)))"
proof -
  obtain e1 w1 rs1 where i: "intento env reg w rs = (e1, w1, rs1)"
    by (cases "intento env reg w rs") auto
  show ?thesis
  proof (cases e1)
    case None
    with assms i have "err = None" "w' = w1" by (auto simp: procesar_registro_def)
    with intento_cases [OF i] None show ?thesis by auto
  next
    case (Some e)
    with intento_cases [OF i] have f1: "filas w1 = filas w" by auto
    obtain e2 w2 where a: "actualizar_registro env (reg_id reg) (resultado_error reg e) w1 = (e2, w2)"
      by force
    from assms i Some a have "err = e2" "w' = w2" by (auto simp: procesar_registro_def)
    with actualizar_cases [OF a] f1 show ?thesis by auto
  qed
qed


lemma procesado_marcar [simp]: "procesado (marcar res t r)"
  by (simp add: marcar_def)

lemma reg_id_marcar [simp]: "reg_id (marcar res t r) = reg_id r"
  by (simp add: marcar_def)

lemma transicion_refl: "transicion r r"
  by (simp add: transicion_def)

lemma transicion_marcar: "\<not> procesado r \<Longrightarrow> transicion r (marcar res t r)"
  unfolding transicion_def by blast

lemma transicion_frozen: "transicion r r' \<Longrightarrow> procesado r \<Longrightarrow> r' = r"
  unfolding transicion_def by blast

lemma transicion_procesado:
  assumes "transicion r r'" and "r' \<noteq> r"
  shows "procesado r'"
proof -
  from assms obtain res t where "r' = marcar res t r"
    unfolding transicion_def by blast
  then show ?thesis by simp
qed

lemma transicion_trans:
  assumes "transicion a b" and "transicion b c"
  shows "transicion a c"
proof (cases "b = a")
  case True
  with assms(2) show ?thesis by simp
next
  case False
  with assms(1) have "procesado b" by (rule transicion_procesado)
  with assms(2) have "c = b" by (rule transicion_frozen)
  with assms(1) show ?thesis by simp
qed

lemma transicion_id:
  assumes "transicion r r'"
  shows "reg_id r' = reg_id r"
proof (cases "r' = r")
  case True
  then show ?thesis by simp
next
  case False
  with assms obtain res t where "r' = marcar res t r"
    unfolding transicion_def by blast
  then show ?thesis by simp
qed

lemma transicion_inv:
  assumes "transicion r r'" and "inv_registro r"
  shows "inv_registro r'"
proof (cases "r' = r")
  case True
  with assms(2) show ?thesis by simp
next
  case False
  with assms(1) have "procesado r'" by (rule transicion_procesado)
  then show ?thesis by (simp add: inv_registro_def)
qed

lemma marcar_step:
  assumes "\<forall>r\<in>set rows. reg_id r = i \<longrightarrow> \<not> procesado r"
  shows "list_all2 transicion rows (map (\<lambda>r. if reg_id r = i then marcar res t r else r) rows)"
  using assms by (induction rows) (simp_all add: transicion_refl transicion_marcar)

lemma bucle_transicion:
  "pendientes_ok regs (filas w) \<Longrightarrow>
     list_all2 transicion (filas w) (filas (snd (bucle env regs w rs)))"
proof (induction regs arbitrary: w rs)
  case Nil
  then show ?case by (simp add: list_all2_refl transicion_refl)
next
  case (Cons reg regs)
  obtain err w1 rs1 where p: "procesar_registro env reg w rs = (err, w1, rs1)"
    by (cases "procesar_registro env reg w rs") auto
  from Cons.prems have un: "\<forall>r\<in>set (filas w). reg_id r = reg_id reg \<longrightarrow> \<not> procesado r"
    and di: "reg_id reg \<notin> reg_id ` set regs" and dr: "distinct (map reg_id regs)"
    and rest: "\<forall>reg'\<in>set regs. \<forall>r\<in>set (filas w). reg_id r = reg_id reg' \<longrightarrow> \<not> procesado r"
    by (auto simp: pendientes_ok_def)
  have step: "list_all2 transicion (filas w) (filas w1)"
  proof -
    from procesar_cases [OF p] consider "filas w1 = filas w"
      | res t where "filas w1 =
          map (\<lambda>r. if reg_id r = reg_id reg then marcar res t r else r) (filas w)"
      by blast
    then show ?thesis
    proof cases
      case 1
      then show ?thesis by (simp add: list_all2_refl transicion_refl)
    next
      case (2 res t)
      then show ?thesis using marcar_step [OF un, of res t] by simp
    qed
  qed
  show ?case
  proof (cases err)
    case (Some e)
    with p step show ?thesis by simp
  next
    case None
    with procesar_cases [OF p] obtain res t where
      f: "filas w1 = map (\<lambda>r. if reg_id r = reg_id reg then marcar res t r else r) (filas w)"
      by blast
    have "pendientes_ok regs (filas w1)"
      unfolding pendientes_ok_def
    proof (intro conjI ballI impI)
      show "distinct (map reg_id regs)" by (rule dr)
    next
      fix reg' r assume a: "reg' \<in> set regs" "r \<in> set (filas w1)" "reg_id r = reg_id reg'"
      from a(2) f obtain r0 where r0: "r0 \<in> set (filas w)"
        "r = (if reg_id r0 = reg_id reg then marcar res t r0 else r0)" by auto
      have ne: "reg_id reg' \<noteq> reg_id reg"
      proof
        assume "reg_id reg' = reg_id reg"
        then have "reg_id reg = reg_id reg'" by simp
        with a(1) have "reg_id reg \<in> reg_id ` set regs" by (rule image_eqI [rotated])
        with di show False by simp
      qed
      from r0 a(3) ne have "r = r0" by (auto split: if_splits)
      with rest a r0 show "\<not> procesado r" by auto
    qed
    from Cons.IH [OF this] have "list_all2 transicion (filas w1) (filas (snd (bucle env regs w1 rs1)))" .
    with step have "list_all2 transicion (filas w) (filas (snd (bucle env regs w1 rs1)))"
      by (rule list_all2_trans [rotated]) (rule transicion_trans)
    with p None show ?thesis by simp
  qed
qed

lemma pendientes_inicial:
  assumes "distinct (map reg_id rows)"
  shows "pendientes_ok (sort_key fecha_recepcion (filter (\<lambda>r. \<not> procesado r) rows)) rows"
proof -
  let ?regs = "sort_key fecha_recepcion (filter (\<lambda>r. \<not> procesado r) rows)"
  from assms have d: "distinct rows" and inj: "inj_on reg_id (set rows)"
    by (simp_all add: distinct_map)
  have s: "set ?regs \<subseteq> set rows" by simp
  have np: "\<And>r. r \<in> set ?regs \<Longrightarrow> \<not> procesado r" by simp
  have "distinct ?regs" using d by simp
  moreover have "inj_on reg_id (set ?regs)" using inj s by (rule inj_on_subset)
  ultimately have "distinct (map reg_id ?regs)" by (simp add: distinct_map)
  moreover have "\<forall>reg\<in>set ?regs. \<forall>r\<in>set rows. reg_id r = reg_id reg \<longrightarrow> \<not> procesado r"
  proof (intro ballI impI)
    fix reg r assume a: "reg \<in> set ?regs" "r \<in> set rows" "reg_id r = reg_id reg"
    from a(1) s have b: "reg \<in> set rows" by blast
    have "r = reg" by (rule inj_onD [OF inj a(3) a(2) b])
    with np [OF a(1)] show "\<not> procesado r" by simp
  qed
  ultimately show ?thesis unfolding pendientes_ok_def by blast
qed

lemma validar_todos_transicion:
  assumes "distinct (map reg_id (filas w))"
  shows "list_all2 transicion (filas w) (filas (snd (validar_todos_los_registros env w)))"
proof (cases "db_falla env (reloj w)")
  case (Some e)
  then show ?thesis
    by (simp add: validar_todos_los_registros_def obtener_registros_pendientes_def
          list_all2_refl transicion_refl)
next
  case None
  let ?w1 = "w\<lparr>reloj := Suc (reloj w)\<rparr>"
  let ?regs = "sort_key fecha_recepcion (filter (\<lambda>r. \<not> procesado r) (filas w))"
  have "pendientes_ok ?regs (filas ?w1)" using pendientes_inicial [OF assms] by simp
  from bucle_transicion [OF this, of env "[]"] None show ?thesis
    by (simp add: validar_todos_los_registros_def obtener_registros_pendientes_def
          list_all2_refl transicion_refl)
qed

lemma intento_filas:
  assumes "intento env reg w rs = (Some e, w1, rs1)"
  shows "filas w1 = filas w"
  using intento_cases [OF assms] by simp

lemma marcar_resultado_error:
  "marcar (resultado_error reg e) t r =
     r\<lparr>procesado := True,
       es_anomalia := True,
       tipo_anomalia := Some ERROR_PROCESAMIENTO,
       resultado_validacion := Some (''Error: '' @ str_error e),
       datos_factura_json := JNull,
       fecha_procesamiento := Some t\<rparr>"
  by (simp add: marcar_def resultado_error_def)

text \<open>
  Claim C3, as the code has it.  When the \<open>try\<close> block of the loop raises for a record,
  the table is as it was before the record, and the handler writes the error outcome.  If
  that write succeeds, the rows of the record are marked processed, anomalous, with kind
  \<open>error_procesamiento_factura\<close> and the text \<open>Error: \<close> followed by the exception text, the
  error outcome is appended and the loop goes on with the remaining records.  If that write
  fails, its exception leaves the loop and the batch ends with it.
\<close>

theorem C3_record_failure:
  assumes "intento env reg w rs = (Some e, w1, rs1)"
  shows
   "(db_falla env (reloj w1) = None \<longrightarrow>
       bucle env (reg # regs) w rs =
       bucle env regs
         (w1\<lparr>filas :=
               map (\<lambda>r. if reg_id r = reg_id reg
                        then r\<lparr>procesado := True,
                               es_anomalia := True,
                               tipo_anomalia := Some ERROR_PROCESAMIENTO,
                               resultado_validacion := Some (''Error: '' @ str_error e),
                               datos_factura_json := JNull,
                               fecha_procesamiento := Some (utcnow env (reloj w1))\<rparr>
                        else r) (filas w),
             reloj := Suc (reloj w1)\<rparr>)
         (rs1 @ [resultado_error reg e])) \<and>
    (\<forall>e2. db_falla env (reloj w1) = Some e2 \<longrightarrow>
       bucle env (reg # regs) w rs = (Inl e2, w1\<lparr>reloj := Suc (reloj w1)\<rparr>))"
proof -
  have f: "filas w1 = filas w" using assms by (rule intento_filas)
  show ?thesis
    using assms f
    by (simp add: procesar_registro_def actualizar_registro_def
          marcar_resultado_error cong: if_cong)
qed

theorem C3_record_failure_witness:
  "intento (env_fijo datos_ej (Inr ''OK'') (falla_solo 0)) (registro_nuevo 1 5 JNull None)
     mundo_uno [] =
     (Some (OtherError ''database is locked''), mundo_uno\<lparr>reloj := 1\<rparr>,
      [(resultado_inicial (registro_nuevo 1 5 JNull None) 0)
         \<lparr>res_es_anomalia := True, res_tipo_anomalia := Some SIN_OC_NI_FACTURA\<rparr>]) \<and>
   map (\<lambda>r. (procesado r, es_anomalia r, tipo_anomalia r, resultado_validacion r))
     (filas (snd (bucle (env_fijo datos_ej (Inr ''OK'') (falla_solo 0))
        [registro_nuevo 1 5 JNull None] mundo_uno []))) =
     [(True, True, Some ERROR_PROCESAMIENTO, Some ''Error: database is locked'')] \<and>
   bucle (env_fijo datos_ej (Inr ''OK'') (falla_desde 0))
        [registro_nuevo 1 5 JNull None] mundo_uno [] =
     (Inl (OtherError ''database is locked''), mundo_uno\<lparr>reloj := 2\<rparr>)"
proof -
  let ?reg = "registro_nuevo 1 5 JNull None"
  let ?res = "(resultado_inicial ?reg 0)
         \<lparr>res_es_anomalia := True, res_tipo_anomalia := Some SIN_OC_NI_FACTURA\<rparr>"
  have a: "intento (env_fijo datos_ej (Inr ''OK'') (falla_solo 0)) ?reg mundo_uno [] =
     (Some (OtherError ''database is locked''), mundo_uno\<lparr>reloj := 1\<rparr>, [?res])"
    by (simp add: intento_def num_ordenes_def registro_nuevo_def validar_registro_individual_def
          actualizar_registro_def env_fijo_def falla_solo_def mundo_uno_def)
  have b: "intento (env_fijo datos_ej (Inr ''OK'') (falla_desde 0)) ?reg mundo_uno [] =
     (Some (OtherError ''database is locked''), mundo_uno\<lparr>reloj := 1\<rparr>, [?res])"
    by (simp add: intento_def num_ordenes_def registro_nuevo_def validar_registro_individual_def
          actualizar_registro_def env_fijo_def falla_desde_def mundo_uno_def)
  show ?thesis
    using a C3_record_failure [OF a, of "[]"] C3_record_failure [OF b, of "[]"]
    by (simp add: env_fijo_def falla_solo_def falla_desde_def mundo_uno_def registro_nuevo_def)
qed

text \<open>
  Claim C3 as stated says that the failure of one record never aborts the batch.  With a
  store that answers the query and then fails, the update of the first record raises, the
  update of the handler raises too, and the batch ends with the exception; the record is
  still not processed.
\<close>

theorem C3_counterexample:
  "fst (validar_todos_los_registros (env_fijo datos_ej (Inr ''OK'') (falla_desde 1)) mundo_uno)
     = Inl (OtherError ''database is locked'') \<and>
   map procesado
     (filas (snd (validar_todos_los_registros
        (env_fijo datos_ej (Inr ''OK'') (falla_desde 1)) mundo_uno))) = [False]"
  by code_simp

lemma fold_max_ge: "(a::nat) \<le> fold max xs a"
proof (induction xs arbitrary: a)
  case Nil
  then show ?case by simp
next
  case (Cons x xs)
  have "a \<le> max x a" by simp
  also have "max x a \<le> fold max xs (max x a)" by (rule Cons.IH)
  finally show ?case by simp
qed

lemma fold_max_mem: "x \<in> set xs \<Longrightarrow> (x::nat) \<le> fold max xs a"
proof (induction xs arbitrary: a)
  case Nil
  then show ?case by simp
next
  case (Cons y ys)
  show ?case
  proof (cases "x = y")
    case True
    have "x \<le> max y a" using True by simp
    also have "max y a \<le> fold max ys (max y a)" by (rule fold_max_ge)
    finally show ?thesis by simp
  next
    case False
    with Cons.prems have "x \<in> set ys" by simp
    then have "x \<le> fold max ys (max y a)" by (rule Cons.IH)
    then show ?thesis by simp
  qed
qed

lemma nuevo_id_fresh: "nuevo_id w \<notin> set (map reg_id (filas w))"
proof
  assume "nuevo_id w \<in> set (map reg_id (filas w))"
  then have "nuevo_id w \<le> fold max (map reg_id (filas w)) 0" by (rule fold_max_mem)
  then show False by (simp add: nuevo_id_def)
qed

lemma guardar_cases:
  "(\<exists>e. fst (guardar_registro_sync env f ocs w) = Inl e \<and>
        filas (snd (guardar_registro_sync env f ocs w)) = filas w) \<or>
   (\<exists>nuevo. fst (guardar_registro_sync env f ocs w) = Inr (reg_id nuevo) \<and>
        filas (snd (guardar_registro_sync env f ocs w)) = filas w @ [nuevo] \<and>
        reg_id nuevo = nuevo_id w \<and>
        \<not> procesado nuevo \<and> \<not> es_anomalia nuevo \<and> tipo_anomalia nuevo = None \<and>
        fecha_procesamiento nuevo = None \<and> resultado_validacion nuevo = None)"
  by (cases "db_falla env (reloj w)") (simp_all add: guardar_registro_sync_def Let_def)

lemma list_all2_transicion_ids:
  assumes "list_all2 transicion xs ys"
  shows "map reg_id ys = map reg_id xs"
  using assms by (induction rule: list_all2_induct) (simp_all add: transicion_id)

lemma list_all2_transicion_inv:
  assumes "list_all2 transicion xs ys" and "\<forall>r\<in>set xs. inv_registro r"
  shows "\<forall>r\<in>set ys. inv_registro r"
  using assms
proof (induction rule: list_all2_induct)
  case Nil
  then show ?case by simp
next
  case (Cons x xs y ys)
  from Cons.hyps(1) have "inv_registro y"
    by (rule transicion_inv) (use Cons.prems in simp)
  moreover have "\<forall>r\<in>set ys. inv_registro r" by (rule Cons.IH) (use Cons.prems in simp)
  ultimately show ?case by simp
qed

text \<open>
  Claim C4.  The two operations that write the table are the insertion of a submission
  and the batch.  On a table whose keys are different and whose rows satisfy the invariant
  (a row that is not processed is not an anomaly, has no kind and no processing time):
  the insertion either fails and leaves the rows as they were, or appends one row that is
  not processed and carries no outcome, and leaves the others as they were; the batch
  leaves each row as it was or, for a row that was not processed, applies the one update
  that sets \<open>procesado\<close> and all the outcome fields together; a processed row is never
  changed.  After either operation the keys are still different and every row satisfies
  the invariant.
\<close>

theorem C4_outcome_invariant:
  assumes "distinct (map reg_id (filas w))"
    and "\<forall>r\<in>set (filas w). inv_registro r"
  shows
   "(case fst (guardar_registro_sync env f ocs w) of
       Inl e \<Rightarrow> filas (snd (guardar_registro_sync env f ocs w)) = filas w
     | Inr i \<Rightarrow> \<exists>nuevo. filas (snd (guardar_registro_sync env f ocs w)) = filas w @ [nuevo] \<and>
          reg_id nuevo = i \<and> \<not> procesado nuevo \<and> \<not> es_anomalia nuevo \<and>
          tipo_anomalia nuevo = None \<and> fecha_procesamiento nuevo = None) \<and>
    distinct (map reg_id (filas (snd (guardar_registro_sync env f ocs w)))) \<and>
    (\<forall>r\<in>set (filas (snd (guardar_registro_sync env f ocs w))). inv_registro r) \<and>
    list_all2 transicion (filas w) (filas (snd (validar_todos_los_registros env w))) \<and>
    distinct (map reg_id (filas (snd (validar_todos_los_registros env w)))) \<and>
    (\<forall>r\<in>set (filas (snd (validar_todos_los_registros env w))). inv_registro r)"
proof -
  let ?g = "guardar_registro_sync env f ocs w"
  let ?v = "validar_todos_los_registros env w"
  from guardar_cases [of env f ocs w] consider
      e where "fst ?g = Inl e" "filas (snd ?g) = filas w"
    | nuevo where "fst ?g = Inr (reg_id nuevo)" "filas (snd ?g) = filas w @ [nuevo]"
        "reg_id nuevo = nuevo_id w" "\<not> procesado nuevo" "\<not> es_anomalia nuevo"
        "tipo_anomalia nuevo = None" "fecha_procesamiento nuevo = None"
    by blast
  then have g: "(case fst ?g of
       Inl e \<Rightarrow> filas (snd ?g) = filas w
     | Inr i \<Rightarrow> \<exists>nuevo. filas (snd ?g) = filas w @ [nuevo] \<and>
          reg_id nuevo = i \<and> \<not> procesado nuevo \<and> \<not> es_anomalia nuevo \<and>
          tipo_anomalia nuevo = None \<and> fecha_procesamiento nuevo = None) \<and>
    distinct (map reg_id (filas (snd ?g))) \<and>
    (\<forall>r\<in>set (filas (snd ?g)). inv_registro r)"
  proof cases
    case 1
    with assms show ?thesis by simp
  next
    case 2
    have "reg_id nuevo \<notin> set (map reg_id (filas w))"
      using nuevo_id_fresh [of w] 2(3) by simp
    moreover have "inv_registro nuevo" using 2 by (simp add: inv_registro_def)
    ultimately show ?thesis using assms 2 by auto
  qed
  have t: "list_all2 transicion (filas w) (filas (snd ?v))"
    using assms(1) by (rule validar_todos_transicion)
  have "map reg_id (filas (snd ?v)) = map reg_id (filas w)"
    using t by (rule list_all2_transicion_ids)
  with assms(1) have d: "distinct (map reg_id (filas (snd ?v)))" by simp
  have i: "\<forall>r\<in>set (filas (snd ?v)). inv_registro r"
    using t assms(2) by (rule list_all2_transicion_inv)
  from g t d i show ?thesis by blast
qed

theorem C4_outcome_invariant_witness:
  "distinct (map reg_id (filas mundo_uno)) \<and>
   list_all inv_registro (filas mundo_uno) \<and>
   map (\<lambda>r. (reg_id r, procesado r))
     (filas (snd (guardar_registro_sync (env_fijo datos_ej (Inr ''OK'') (\<lambda>n. None))
        pdf_ej [] mundo_uno))) = [(1, False), (2, False)] \<and>
   list_all inv_registro
     (filas (snd (guardar_registro_sync (env_fijo datos_ej (Inr ''OK'') (\<lambda>n. None))
        pdf_ej [] mundo_uno))) \<and>
   map (\<lambda>r. (reg_id r, procesado r, tipo_anomalia r, fecha_procesamiento r))
     (filas (snd (validar_todos_los_registros (env_fijo datos_ej (Inr ''OK'') (\<lambda>n. None))
        mundo_uno))) = [(1, True, Some SIN_OC_NI_FACTURA, Some 1)] \<and>
   list_all2 transicion (filas mundo_uno)
     (filas (snd (validar_todos_los_registros (env_fijo datos_ej (Inr ''OK'') (\<lambda>n. None))
        mundo_uno)))"
proof -
  let ?env = "env_fijo datos_ej (Inr ''OK'') (\<lambda>n. None)"
  have a: "distinct (map reg_id (filas mundo_uno))"
    by (simp add: mundo_uno_def)
  have b: "\<forall>r\<in>set (filas mundo_uno). inv_registro r"
    by (simp add: mundo_uno_def inv_registro_def registro_nuevo_def)
  have c: "map (\<lambda>r. (reg_id r, procesado r))
     (filas (snd (guardar_registro_sync ?env pdf_ej [] mundo_uno))) = [(1, False), (2, False)]"
    by code_simp
  have d: "map (\<lambda>r. (reg_id r, procesado r, tipo_anomalia r, fecha_procesamiento r))
     (filas (snd (validar_todos_los_registros ?env mundo_uno)))
       = [(1, True, Some SIN_OC_NI_FACTURA, Some 1)]"
    by code_simp
  from C4_outcome_invariant [OF a b, of ?env pdf_ej "[]"] a b c d
  show ?thesis unfolding list_all_iff by blast
qed

lemma bucle_all_done:
  "bucle env regs w rs = (Inr rs', w') \<Longrightarrow>
     list_all2 (\<lambda>r r'. reg_id r' = reg_id r \<and>
                 (procesado r \<or> reg_id r \<in> reg_id ` set regs \<longrightarrow> procesado r'))
       (filas w) (filas w')"
proof (induction regs arbitrary: w rs)
  case Nil
  then have "w' = w" by simp
  then show ?case by (simp add: list_all2_refl)
next
  case (Cons reg regs)
  obtain err w1 rs1 where p: "procesar_registro env reg w rs = (err, w1, rs1)"
    by (cases "procesar_registro env reg w rs") auto
  show ?case
  proof (cases err)
    case (Some e)
    with p Cons.prems show ?thesis by simp
  next
    case None
    with p Cons.prems have b: "bucle env regs w1 rs1 = (Inr rs', w')" by simp
    from None procesar_cases [OF p] obtain res t where
      f: "filas w1 = map (\<lambda>r. if reg_id r = reg_id reg then marcar res t r else r) (filas w)"
      by blast
    let ?f = "\<lambda>r. if reg_id r = reg_id reg then marcar res t r else r"
    from Cons.IH [OF b] f
    have "list_all2 (\<lambda>r r'. reg_id r' = reg_id (?f r) \<and>
                 (procesado (?f r) \<or> reg_id (?f r) \<in> reg_id ` set regs \<longrightarrow> procesado r'))
            (filas w) (filas w')"
      by (simp add: list_all2_map1)
    then show ?thesis
      by (rule list_all2_mono) (simp split: if_splits)
  qed
qed

lemma list_all2_all_right:
  assumes "list_all2 (\<lambda>x y. P x \<longrightarrow> Q y) xs ys" and "\<forall>x\<in>set xs. P x"
  shows "\<forall>y\<in>set ys. Q y"
  using assms by (induction rule: list_all2_induct) simp_all

lemma pendientes_vacio:
  assumes "\<forall>r\<in>set rows. procesado r"
  shows "sort_key fecha_recepcion (filter (\<lambda>r. \<not> procesado r) rows) = []"
proof -
  from assms have "filter (\<lambda>r. \<not> procesado r) rows = []" by (simp add: filter_empty_conv)
  then show ?thesis by simp
qed

lemma validar_todos_all_done:
  assumes "validar_todos_los_registros env w = (Inr rs, w1)"
  shows "\<forall>r\<in>set (filas w1). procesado r"
proof (cases "db_falla env (reloj w)")
  case (Some e)
  with assms show ?thesis
    by (simp add: validar_todos_los_registros_def obtener_registros_pendientes_def)
next
  case None
  let ?w0 = "w\<lparr>reloj := Suc (reloj w)\<rparr>"
  let ?regs = "sort_key fecha_recepcion (filter (\<lambda>r. \<not> procesado r) (filas w))"
  have cover: "\<forall>r\<in>set (filas w). procesado r \<or> reg_id r \<in> reg_id ` set ?regs"
    by auto
  show ?thesis
  proof (cases "?regs = []")
    case True
    with assms None have "w1 = ?w0"
      by (simp add: validar_todos_los_registros_def obtener_registros_pendientes_def)
    moreover from cover True have "\<forall>r\<in>set (filas w). procesado r" by simp
    ultimately show ?thesis by simp
  next
    case False
    with assms None have "bucle env ?regs ?w0 [] = (Inr rs, w1)"
      by (simp add: validar_todos_los_registros_def obtener_registros_pendientes_def)
    from bucle_all_done [OF this]
    have "list_all2 (\<lambda>r r'. reg_id r' = reg_id r \<and>
                 (procesado r \<or> reg_id r \<in> reg_id ` set ?regs \<longrightarrow> procesado r'))
            (filas w) (filas w1)" by simp
    then have "list_all2 (\<lambda>r r'. procesado r \<or> reg_id r \<in> reg_id ` set ?regs \<longrightarrow> procesado r')
            (filas w) (filas w1)"
      by (rule list_all2_mono) simp
    then show ?thesis using cover by (rule list_all2_all_right)
  qed
qed

lemma pendientes_seleccion:
  assumes "fst (obtener_registros_pendientes env w) = Inr regs"
  shows "set regs = {r \<in> set (filas w). \<not> procesado r} \<and> sorted (map fecha_recepcion regs)"
proof (cases "db_falla env (reloj w)")
  case (Some e)
  with assms show ?thesis by (simp add: obtener_registros_pendientes_def)
next
  case None
  with assms have "regs = sort_key fecha_recepcion (filter (\<lambda>r. \<not> procesado r) (filas w))"
    by (simp add: obtener_registros_pendientes_def)
  then show ?thesis by auto
qed

text \<open>
  Claim C8, as the code has it.  The query of the batch returns the rows that are not
  processed, oldest first.  When a run of the batch returns its outcomes, every row of the
  table is processed, and a second run on that table, whatever the collaborators and the
  store then do, selects nothing: it returns the empty sequence (or the exception of its
  one query), calls no collaborator and changes no row.
\<close>

theorem C8_batch_idempotent:
  assumes "validar_todos_los_registros env w = (Inr rs, w1)"
  shows "(\<forall>regs. fst (obtener_registros_pendientes env w) = Inr regs \<longrightarrow>
            set regs = {r \<in> set (filas w). \<not> procesado r} \<and>
            sorted (map fecha_recepcion regs)) \<and>
         (\<forall>r\<in>set (filas w1). procesado r) \<and>
         obtener_registros_pendientes env' w1 =
           (case db_falla env' (reloj w1) of
              None \<Rightarrow> (Inr [], w1\<lparr>reloj := Suc (reloj w1)\<rparr>)
            | Some e \<Rightarrow> (Inl e, w1\<lparr>reloj := Suc (reloj w1)\<rparr>)) \<and>
         validar_todos_los_registros env' w1 =
           (case db_falla env' (reloj w1) of
              None \<Rightarrow> (Inr [], w1\<lparr>reloj := Suc (reloj w1)\<rparr>)
            | Some e \<Rightarrow> (Inl e, w1\<lparr>reloj := Suc (reloj w1)\<rparr>))"
proof -
  have s: "\<forall>regs. fst (obtener_registros_pendientes env w) = Inr regs \<longrightarrow>
            set regs = {r \<in> set (filas w). \<not> procesado r} \<and>
            sorted (map fecha_recepcion regs)"
    using pendientes_seleccion by blast
  have a: "\<forall>r\<in>set (filas w1). procesado r" using assms by (rule validar_todos_all_done)
  then have e: "sort_key fecha_recepcion (filter (\<lambda>r. \<not> procesado r) (filas w1)) = []"
    by (rule pendientes_vacio)
  have o: "obtener_registros_pendientes env' w1 =
           (case db_falla env' (reloj w1) of
              None \<Rightarrow> (Inr [], w1\<lparr>reloj := Suc (reloj w1)\<rparr>)
            | Some e \<Rightarrow> (Inl e, w1\<lparr>reloj := Suc (reloj w1)\<rparr>))"
    by (simp add: obtener_registros_pendientes_def e split: option.splits)
  have v: "validar_todos_los_registros env' w1 =
           (case db_falla env' (reloj w1) of
              None \<Rightarrow> (Inr [], w1\<lparr>reloj := Suc (reloj w1)\<rparr>)
            | Some e \<Rightarrow> (Inl e, w1\<lparr>reloj := Suc (reloj w1)\<rparr>))"
    by (simp add: validar_todos_los_registros_def o split: option.splits)
  from s a o v show ?thesis by blast
qed

theorem C8_batch_idempotent_witness:
  "map_sum id (map (\<lambda>r. (registro_id r, res_tipo_anomalia r)))
     (fst (validar_todos_los_registros (env_fijo datos_ej (Inr ''OK'') (\<lambda>n. None)) mundo_dos))
     = Inr [(2, None), (1, Some SIN_OC_NI_FACTURA)] \<and>
   list_all procesado (filas (snd (validar_todos_los_registros
        (env_fijo datos_ej (Inr ''OK'') (\<lambda>n. None)) mundo_dos))) \<and>
   fst (validar_todos_los_registros (env_fijo datos_ej (Inr ''OK'') (\<lambda>n. None))
     (snd (validar_todos_los_registros (env_fijo datos_ej (Inr ''OK'') (\<lambda>n. None)) mundo_dos)))
     = Inr []"
proof -
  let ?env = "env_fijo datos_ej (Inr ''OK'') (\<lambda>n. None)"
  obtain rs w1 where r: "validar_todos_los_registros ?env mundo_dos = (Inr rs, w1)"
    and rs: "map (\<lambda>r. (registro_id r, res_tipo_anomalia r)) rs = [(2, None), (1, Some SIN_OC_NI_FACTURA)]"
  proof -
    have "map_sum id (map (\<lambda>r. (registro_id r, res_tipo_anomalia r)))
       (fst (validar_todos_los_registros ?env mundo_dos))
       = Inr [(2, None), (1, Some SIN_OC_NI_FACTURA)]"
      by code_simp
    then show ?thesis
      by (cases "validar_todos_los_registros ?env mundo_dos"; cases "fst (validar_todos_los_registros ?env mundo_dos)")
         (auto intro: that)
  qed
  have n: "db_falla ?env (reloj w1) = None" by (simp add: env_fijo_def)
  from C8_batch_idempotent [OF r, of ?env] r rs n show ?thesis
    by (simp add: list_all_iff)
qed

text \<open>
  Claim C8 as stated has every record that a run touches processed afterwards.  A run that
  a failure of the store ends leaves the record it was treating, and those after it, not
  processed; the next run selects them and returns their outcomes.
\<close>

theorem C8_counterexample:
  "fst (validar_todos_los_registros (env_fijo datos_ej (Inr ''OK'') (falla_desde 1)) mundo_dos)
     = Inl (OtherError ''database is locked'') \<and>
   map_sum id (map (\<lambda>r. (registro_id r, res_tipo_anomalia r)))
     (fst (validar_todos_los_registros (env_fijo datos_ej (Inr ''OK'') (\<lambda>n. None))
       (snd (validar_todos_los_registros (env_fijo datos_ej (Inr ''OK'') (falla_desde 1))
          mundo_dos))))
     = Inr [(2, None), (1, Some SIN_OC_NI_FACTURA)]"
  by code_simp

subsection \<open>Normalising a purchase order\<close>

lemma or_str_cases:
  "or_str a b c d =
     (if truthy_str a then (case a of Some s \<Rightarrow> s | None \<Rightarrow> d)
      else if truthy_str b then (case b of Some s \<Rightarrow> s | None \<Rightarrow> d)
      else if truthy_str c then (case c of Some s \<Rightarrow> s | None \<Rightarrow> d)
      else d)"
  by (simp add: or_str_def py_or_def split: option.splits)

lemma campos_normalizados:
  "map_of (to_normalized_dict lib oc) ''id'' =
     Some (JStr (or_str (id' oc) (oc_id oc) (order_id oc) ''N/A''))"
  "map_of (to_normalized_dict lib oc) ''proveedor'' =
     Some (JStr (or_str (proveedor oc) (VendorName oc) (vendor_name oc) ''N/A''))"
  "map_of (to_normalized_dict lib oc) ''empresa'' =
     Some (JStr (or_str (empresa oc) (our_company oc) (receptor oc) ''N/A''))"
  by (simp_all add: to_normalized_dict_def Let_def)


lemma campo_moneda:
  "map_of (to_normalized_dict lib oc) ''moneda'' =
     Some (JStr (str_upper lib
       (case py_or truthy_str (moneda oc) (py_or truthy_str (currency oc) (Some ''MXN'')) of
          Some s \<Rightarrow> s
        | None \<Rightarrow> ''MXN'')))"
  by (simp add: to_normalized_dict_def Let_def)

text \<open>
  Claim C5, as the code has it.  Each field of the normalised order is the first of its
  synonyms that is there and not empty, in the order of the chain of \<open>or\<close>: for the
  supplier \<open>proveedor\<close>, then \<open>VendorName\<close>, then \<open>vendor_name\<close>, and \<open>N/A\<close> when none is;
  for the company \<open>empresa\<close>, \<open>our_company\<close>, \<open>receptor\<close>; for the identifier \<open>id\<close>,
  \<open>oc_id\<close>, \<open>order_id\<close>; for the currency \<open>moneda\<close>, then \<open>currency\<close>, and \<open>MXN\<close> when none
  is, in upper case.  With \<open>VendorName\<close> and \<open>proveedor\<close> both there, the supplier is the
  value of \<open>proveedor\<close>.
\<close>

theorem C5_synonym_order:
  "(\<forall>p. proveedor oc = Some p \<and> p \<noteq> [] \<longrightarrow>
      map_of (to_normalized_dict lib oc) ''proveedor'' = Some (JStr p)) \<and>
   (\<forall>v. \<not> truthy_str (proveedor oc) \<and> VendorName oc = Some v \<and> v \<noteq> [] \<longrightarrow>
      map_of (to_normalized_dict lib oc) ''proveedor'' = Some (JStr v)) \<and>
   (\<forall>n. \<not> truthy_str (proveedor oc) \<and> \<not> truthy_str (VendorName oc) \<and>
        vendor_name oc = Some n \<and> n \<noteq> [] \<longrightarrow>
      map_of (to_normalized_dict lib oc) ''proveedor'' = Some (JStr n)) \<and>
   (\<not> truthy_str (proveedor oc) \<and> \<not> truthy_str (VendorName oc) \<and>
    \<not> truthy_str (vendor_name oc) \<longrightarrow>
      map_of (to_normalized_dict lib oc) ''proveedor'' = Some (JStr ''N/A'')) \<and>
   (\<forall>p. empresa oc = Some p \<and> p \<noteq> [] \<longrightarrow>
      map_of (to_normalized_dict lib oc) ''empresa'' = Some (JStr p)) \<and>
   (\<forall>v. \<not> truthy_str (empresa oc) \<and> our_company oc = Some v \<and> v \<noteq> [] \<longrightarrow>
      map_of (to_normalized_dict lib oc) ''empresa'' = Some (JStr v)) \<and>
   (\<forall>n. \<not> truthy_str (empresa oc) \<and> \<not> truthy_str (our_company oc) \<and>
        receptor oc = Some n \<and> n \<noteq> [] \<longrightarrow>
      map_of (to_normalized_dict lib oc) ''empresa'' = Some (JStr n)) \<and>
   (\<not> truthy_str (empresa oc) \<and> \<not> truthy_str (our_company oc) \<and>
    \<not> truthy_str (receptor oc) \<longrightarrow>
      map_of (to_normalized_dict lib oc) ''empresa'' = Some (JStr ''N/A'')) \<and>
   (\<forall>p. id' oc = Some p \<and> p \<noteq> [] \<longrightarrow>
      map_of (to_normalized_dict lib oc) ''id'' = Some (JStr p)) \<and>
   (\<forall>v. \<not> truthy_str (id' oc) \<and> oc_id oc = Some v \<and> v \<noteq> [] \<longrightarrow>
      map_of (to_normalized_dict lib oc) ''id'' = Some (JStr v)) \<and>
   (\<forall>n. \<not> truthy_str (id' oc) \<and> \<not> truthy_str (oc_id oc) \<and>
        order_id oc = Some n \<and> n \<noteq> [] \<longrightarrow>
      map_of (to_normalized_dict lib oc) ''id'' = Some (JStr n)) \<and>
   (\<not> truthy_str (id' oc) \<and> \<not> truthy_str (oc_id oc) \<and> \<not> truthy_str (order_id oc) \<longrightarrow>
      map_of (to_normalized_dict lib oc) ''id'' = Some (JStr ''N/A'')) \<and>
   (\<forall>p. moneda oc = Some p \<and> p \<noteq> [] \<longrightarrow>
      map_of (to_normalized_dict lib oc) ''moneda'' = Some (JStr (str_upper lib p))) \<and>
   (\<forall>v. \<not> truthy_str (moneda oc) \<and> currency oc = Some v \<and> v \<noteq> [] \<longrightarrow>
      map_of (to_normalized_dict lib oc) ''moneda'' = Some (JStr (str_upper lib v))) \<and>
   (\<not> truthy_str (moneda oc) \<and> \<not> truthy_str (currency oc) \<longrightarrow>
      map_of (to_normalized_dict lib oc) ''moneda'' = Some (JStr (str_upper lib ''MXN'')))"
proof -
  have prov: "map_of (to_normalized_dict lib oc) ''proveedor'' =
     Some (JStr (or_str (proveedor oc) (VendorName oc) (vendor_name oc) ''N/A''))"
    by (rule campos_normalizados)
  have emp: "map_of (to_normalized_dict lib oc) ''empresa'' =
     Some (JStr (or_str (empresa oc) (our_company oc) (receptor oc) ''N/A''))"
    by (rule campos_normalizados)
  have oid: "map_of (to_normalized_dict lib oc) ''id'' =
     Some (JStr (or_str (id' oc) (oc_id oc) (order_id oc) ''N/A''))"
    by (rule campos_normalizados)
  show ?thesis
    unfolding prov emp oid campo_moneda
    by (simp add: or_str_cases py_or_def)
qed

theorem C5_synonym_order_witness:
  "map_of (to_normalized_dict lib_ej
      (oc_vacia\<lparr>vendor_name := Some ''Gamma'', VendorName := Some ''ACME'',
                 proveedor := Some '''', our_company := Some ''Grima'',
                 currency := Some ''usd'', order_id := Some ''77''\<rparr>)) ''proveedor''
     = Some (JStr ''ACME'') \<and>
   map_of (to_normalized_dict lib_ej
      (oc_vacia\<lparr>vendor_name := Some ''Gamma'', VendorName := Some ''ACME'',
                 proveedor := Some '''', our_company := Some ''Grima'',
                 currency := Some ''usd'', order_id := Some ''77''\<rparr>)) ''empresa''
     = Some (JStr ''Grima'') \<and>
   map_of (to_normalized_dict lib_ej
      (oc_vacia\<lparr>vendor_name := Some ''Gamma'', VendorName := Some ''ACME'',
                 proveedor := Some '''', our_company := Some ''Grima'',
                 currency := Some ''usd'', order_id := Some ''77''\<rparr>)) ''id''
     = Some (JStr ''77'') \<and>
   map_of (to_normalized_dict lib_ej
      (oc_vacia\<lparr>vendor_name := Some ''Gamma'', VendorName := Some ''ACME'',
                 proveedor := Some '''', our_company := Some ''Grima'',
                 currency := Some ''usd'', order_id := Some ''77''\<rparr>)) ''moneda''
     = Some (JStr ''USD'')"
proof -
  have u: "str_upper lib_ej ''usd'' = ''USD''"
    unfolding lib_ej_def by code_simp
  show ?thesis
    using C5_synonym_order [of
      "oc_vacia\<lparr>vendor_name := Some ''Gamma'', VendorName := Some ''ACME'',
                 proveedor := Some '''', our_company := Some ''Grima'',
                 currency := Some ''usd'', order_id := Some ''77''\<rparr>" lib_ej]
    by (simp add: oc_vacia_def u)
qed

text \<open>
  Claim C5 as stated has \<open>VendorName\<close> first.  An order with \<open>VendorName\<close> and \<open>proveedor\<close>
  both there is normalised to the value of \<open>proveedor\<close>.
\<close>

theorem C5_counterexample:
  "VendorName (oc_vacia\<lparr>VendorName := Some ''ACME'', proveedor := Some ''Beta''\<rparr>) = Some ''ACME'' \<and>
   proveedor (oc_vacia\<lparr>VendorName := Some ''ACME'', proveedor := Some ''Beta''\<rparr>) = Some ''Beta'' \<and>
   map_of (to_normalized_dict lib_ej
      (oc_vacia\<lparr>VendorName := Some ''ACME'', proveedor := Some ''Beta''\<rparr>)) ''proveedor''
     = Some (JStr ''Beta'')"
  by (simp add: campos_normalizados or_str_cases oc_vacia_def)




subsection \<open>The ingestion endpoint\<close>



lemma procesar_lista_escalar:
  "procesar_lista lib (JBool b) = Inl (no_iterable (JBool b))"
  "procesar_lista lib (JInt i) = Inl (no_iterable (JInt i))"
  "procesar_lista lib (JFloat x) = Inl (no_iterable (JFloat x))"
  by (simp_all add: procesar_lista_def)




end
